theory Spec2Isabelle
  imports Main
begin

section \<open>The world of \<^verbatim>\<open>setup_real_ai.py\<close>\<close>

text \<open>
  The script is a sequence of console writes, shell commands and file operations. Its
  functions are embedded as state transformers over a \<open>world\<close> (the files of the working
  directory, the console, and the commands handed to the platform shell so far), reading
  an \<open>env\<close> that fixes everything the script does not decide itself: the interpreter
  version, the platform name, the line typed at the prompt, whether \<^verbatim>\<open>import torch\<close>
  works, and what each shell command does.

  A Python function that may raise returns \<open>(exn + 'a) \<times> world\<close>: \<open>Inl e\<close> is the
  exception, and the world is returned in both cases because the effects made before a
  raise stay made.

  Conventions. Strings are lists of code points below 256. A character of the source
  outside ASCII (the status glyphs) is written as its short name between colons.
  Console writes always succeed. Standard input may be at its end when the prompt reads
  it. A shell command with no NUL character is always started and waited for: the child
  leaves an exit status, its output as bytes that may or may not decode as text, and its
  effect on the files.
\<close>

subsection \<open>Exceptions\<close>

datatype exn =
    CalledProcessError int string  \<comment> \<open>\<^verbatim>\<open>subprocess.CalledProcessError\<close>: return code, captured stderr\<close>
  | ImportError string
  | ValueError string              \<comment> \<open>\<^verbatim>\<open>subprocess.run\<close> on a command with an embedded NUL\<close>
  | UnicodeDecodeError string      \<comment> \<open>\<^verbatim>\<open>text=True\<close> on output that is not text\<close>
  | EOFError                       \<comment> \<open>\<^verbatim>\<open>input()\<close> at the end of standard input\<close>
  | FileExistsError string         \<comment> \<open>an \<^verbatim>\<open>OSError\<close>: \<^verbatim>\<open>mkdir\<close> on a path that is a regular file\<close>
  | IsADirectoryError string       \<comment> \<open>an \<^verbatim>\<open>OSError\<close>: \<^verbatim>\<open>open\<close> or \<^verbatim>\<open>os.remove\<close> on a directory\<close>
  | FileNotFoundError string       \<comment> \<open>an \<^verbatim>\<open>OSError\<close>: \<^verbatim>\<open>os.remove\<close> on a missing path\<close>
  | SystemExit int                 \<comment> \<open>raised by \<^verbatim>\<open>sys.exit\<close>; not a subclass of \<^verbatim>\<open>Exception\<close>\<close>

text \<open>What \<^verbatim>\<open>except Exception\<close> catches.\<close>

fun is_Exception :: "exn \<Rightarrow> bool" where
  "is_Exception (SystemExit _) = False"
| "is_Exception _ = True"

subsection \<open>Files\<close>

datatype content =
    Midas_Script       \<comment> \<open>the text of \<^verbatim>\<open>midas_script\<close>, lines 126 to 156\<close>
  | Test_Script        \<comment> \<open>the text of \<^verbatim>\<open>test_script\<close>, lines 171 to 216\<close>
  | Bytes string

datatype node = File content | Dir

type_synonym fs = "string \<Rightarrow> node option"

text \<open>\<^verbatim>\<open>Path(p).mkdir(exist_ok=True)\<close>: raises only when the path exists and is not a directory.\<close>

definition mkdir_exist_ok :: "string \<Rightarrow> fs \<Rightarrow> exn + fs" where
  "mkdir_exist_ok p f =
     (case f p of
        None \<Rightarrow> Inr (f(p \<mapsto> Dir))
      | Some Dir \<Rightarrow> Inr f
      | Some (File c) \<Rightarrow> Inl (FileExistsError p))"

text \<open>\<^verbatim>\<open>with open(p, "w") as f: f.write(c)\<close>: creates or truncates the file.\<close>

definition open_write :: "string \<Rightarrow> content \<Rightarrow> fs \<Rightarrow> exn + fs" where
  "open_write p c f =
     (case f p of
        Some Dir \<Rightarrow> Inl (IsADirectoryError p)
      | _ \<Rightarrow> Inr (f(p \<mapsto> File c)))"

definition os_path_exists :: "string \<Rightarrow> fs \<Rightarrow> bool" where
  "os_path_exists p f = (f p \<noteq> None)"

definition os_remove :: "string \<Rightarrow> fs \<Rightarrow> exn + fs" where
  "os_remove p f =
     (case f p of
        None \<Rightarrow> Inl (FileNotFoundError p)
      | Some Dir \<Rightarrow> Inl (IsADirectoryError p)
      | Some (File c) \<Rightarrow> Inr (f(p := None)))"

subsection \<open>Console\<close>

text \<open>One constructor for each \<^verbatim>\<open>print\<close> that interpolates a value; \<open>Fixed\<close> for a constant line.\<close>

datatype line =
    Cmd_Start string             \<comment> \<open>\<^verbatim>\<open>:package: {description}\<close>\<close>
  | Cmd_Success string           \<comment> \<open>\<^verbatim>\<open>:ok: {description} - Success\<close>\<close>
  | Cmd_Failed string string     \<comment> \<open>\<^verbatim>\<open>:x: {description} - Failed: {e.stderr}\<close>\<close>
  | Version_Error string         \<comment> \<open>\<^verbatim>\<open>:x: Python 3.8+ required. Current version: {sys.version}\<close>\<close>
  | Version_Ok nat nat nat       \<comment> \<open>\<^verbatim>\<open>:ok: Python {major}.{minor}.{micro} is compatible\<close>\<close>
  | Step_Header string           \<comment> \<open>\<^verbatim>\<open>\n:clipboard: {description}...\<close>\<close>
  | Step_Failed string exn       \<comment> \<open>\<^verbatim>\<open>:x: {description} failed: {e}\<close>\<close>
  | Env_Creating string          \<comment> \<open>\<^verbatim>\<open>Creating conda environment: {env_name}\<close>\<close>
  | Env_Created string           \<comment> \<open>\<^verbatim>\<open>:ok: Conda environment '{env_name}' created!\<close>\<close>
  | Env_Activate_Hint string     \<comment> \<open>\<^verbatim>\<open>To activate: conda activate {env_name}\<close>\<close>
  | Fixed string

subsection \<open>Environment and state\<close>

text \<open>What a child process leaves: its exit status and the bytes on its two pipes.\<close>

datatype pipe = Decoded string | Undecodable

record child =
  exit_status :: int
  raw_stdout :: pipe
  raw_stderr :: pipe

definition decodable :: "child \<Rightarrow> bool" where
  "decodable c = (raw_stdout c \<noteq> Undecodable \<and> raw_stderr c \<noteq> Undecodable)"

definition text_of :: "pipe \<Rightarrow> string" where
  "text_of p = (case p of Decoded s \<Rightarrow> s | Undecodable \<Rightarrow> [])"

text \<open>What \<^verbatim>\<open>subprocess.run(..., capture_output=True, text=True)\<close> returns.\<close>

record completed =
  returncode :: int
  stdout :: string
  stderr :: string

text \<open>
  The import probe of \<open>install_pytorch\<close>: \<^verbatim>\<open>import torch\<close> raises \<^verbatim>\<open>ImportError\<close>, or
  succeeds and \<^verbatim>\<open>torch.cuda.is_available()\<close> answers.
\<close>

datatype torch_probe = Import_Fails string | Imported bool

record env =
  version_info :: "nat \<times> nat \<times> nat"   \<comment> \<open>\<^verbatim>\<open>sys.version_info\<close>: major, minor, micro\<close>
  sys_version :: string
  platform_system :: string              \<comment> \<open>\<^verbatim>\<open>platform.system()\<close>\<close>
  stdin_line :: "string option"          \<comment> \<open>the line \<^verbatim>\<open>input()\<close> reads; \<open>None\<close> at end of input\<close>
  torch :: torch_probe
  shell :: "string list \<Rightarrow> string \<Rightarrow> fs \<Rightarrow> child \<times> fs"
    \<comment> \<open>the commands handed over before, the command, the files: what the child leaves behind\<close>

record world =
  files :: fs
  console :: "line list"
  history :: "string list"   \<comment> \<open>every command handed to \<^verbatim>\<open>subprocess.run\<close>, oldest first\<close>

definition say :: "line \<Rightarrow> world \<Rightarrow> world" where
  "say l w = w\<lparr>console := console w @ [l]\<rparr>"

subsection \<open>Strings: \<^verbatim>\<open>str.lower\<close> and \<^verbatim>\<open>str.strip\<close>\<close>

definition py_isspace :: "char \<Rightarrow> bool" where
  "py_isspace c = (of_char c \<in> {9, 10, 11, 12, 13, 28, 29, 30, 31, 32, 133, 160 :: nat})"

definition lower_char :: "char \<Rightarrow> char" where
  "lower_char c =
     (let n = of_char c :: nat in
      if (65 \<le> n \<and> n \<le> 90) \<or> (192 \<le> n \<and> n \<le> 214) \<or> (216 \<le> n \<and> n \<le> 222)
      then char_of (n + 32) else c)"

definition lower :: "string \<Rightarrow> string" where
  "lower s = map lower_char s"

definition strip :: "string \<Rightarrow> string" where
  "strip s = rev (dropWhile py_isspace (rev (dropWhile py_isspace s)))"

section \<open>The command runner\<close>

text \<open>
  \<^verbatim>\<open>subprocess.run(command, shell=True, check=True, capture_output=True, text=True)\<close>.
  The command is recorded as handed over. A command with an embedded NUL raises
  \<^verbatim>\<open>ValueError\<close> before any child is started. Otherwise the child runs; \<^verbatim>\<open>text=True\<close>
  decodes both pipes and raises \<^verbatim>\<open>UnicodeDecodeError\<close> when one does not decode, whatever
  the exit status; and then \<^verbatim>\<open>check=True\<close> turns a non-zero exit status into
  \<^verbatim>\<open>CalledProcessError\<close>.
\<close>

definition subprocess_run :: "env \<Rightarrow> string \<Rightarrow> world \<Rightarrow> (exn + completed) \<times> world" where
  "subprocess_run e command w =
     (let w0 = w\<lparr>history := history w @ [command]\<rparr> in
      if CHR 0x00 \<in> set command then (Inl (ValueError ''embedded null byte''), w0)
      else
        (case shell e (history w) command (files w) of
           (c, f) \<Rightarrow>
             (let w1 = w0\<lparr>files := f\<rparr> in
              case (raw_stdout c, raw_stderr c) of
                (Decoded out, Decoded err) \<Rightarrow>
                  if exit_status c \<noteq> 0
                  then (Inl (CalledProcessError (exit_status c) err), w1)
                  else (Inr \<lparr>returncode = exit_status c, stdout = out, stderr = err\<rparr>, w1)
              | _ \<Rightarrow> (Inl (UnicodeDecodeError ''invalid start byte''), w1))))"

text \<open>Lines 13 to 22. Only \<^verbatim>\<open>CalledProcessError\<close> is handled; anything else passes through.\<close>

definition run_command :: "env \<Rightarrow> string \<Rightarrow> string \<Rightarrow> world \<Rightarrow> (exn + bool) \<times> world" where
  "run_command e command description w =
     (case subprocess_run e command (say (Cmd_Start description) w) of
        (Inr result, w') \<Rightarrow> (Inr True, say (Cmd_Success description) w')
      | (Inl (CalledProcessError rc err), w') \<Rightarrow> (Inr False, say (Cmd_Failed description err) w')
      | (Inl x, w') \<Rightarrow> (Inl x, w'))"

section \<open>The preflight check\<close>

text \<open>Lines 24 to 31.\<close>

definition check_python_version :: "env \<Rightarrow> world \<Rightarrow> bool \<times> world" where
  "check_python_version e w =
     (case version_info e of
        (major, minor, micro) \<Rightarrow>
          if major < 3 \<or> (major = 3 \<and> minor < 8)
          then (False, say (Version_Error (sys_version e)) w)
          else (True, say (Version_Ok major minor micro) w))"

section \<open>The installer steps\<close>

text \<open>Lines 33 to 52.\<close>

definition pytorch_command :: "env \<Rightarrow> string" where
  "pytorch_command e =
     (if platform_system e = ''Windows''
      then ''pip install torch torchvision torchaudio --index-url https://download.pytorch.org/whl/cu118''
      else ''pip install torch torchvision torchaudio'')"

definition install_pytorch :: "env \<Rightarrow> world \<Rightarrow> (exn + bool) \<times> world" where
  "install_pytorch e w =
     (let w1 = say (Fixed '':fire: Installing PyTorch...'') w in
      case torch e of
        Imported True \<Rightarrow> (Inr True, say (Fixed '':ok: PyTorch with CUDA already installed'') w1)
      | _ \<Rightarrow> run_command e (pytorch_command e) ''Installing PyTorch'' w1)"

text \<open>Lines 54 to 56.\<close>

definition install_opencv :: "env \<Rightarrow> world \<Rightarrow> (exn + bool) \<times> world" where
  "install_opencv e w =
     run_command e ''pip install opencv-python opencv-contrib-python'' ''Installing OpenCV'' w"

text \<open>Lines 58 to 73. The loop returns \<open>False\<close> at the first package whose command fails.\<close>

definition midas_packages :: "string list" where
  "midas_packages =
     [''timm'', ''einops'', ''scipy'', ''matplotlib'', ''pillow'', ''transforms3d'', ''open3d'']"

fun install_midas_dependencies_loop :: "env \<Rightarrow> string list \<Rightarrow> world \<Rightarrow> (exn + bool) \<times> world" where
  "install_midas_dependencies_loop e [] w = (Inr True, w)"
| "install_midas_dependencies_loop e (package # packages) w =
     (case run_command e (''pip install '' @ package) (''Installing '' @ package) w of
        (Inl x, w') \<Rightarrow> (Inl x, w')
      | (Inr ok, w') \<Rightarrow>
          if \<not> ok then (Inr False, w')
          else install_midas_dependencies_loop e packages w')"

definition install_midas_dependencies :: "env \<Rightarrow> world \<Rightarrow> (exn + bool) \<times> world" where
  "install_midas_dependencies e w = install_midas_dependencies_loop e midas_packages w"

text \<open>Lines 75 to 102. The loop ignores what \<open>run_command\<close> returns.\<close>

definition basic_deps :: "string list" where
  "basic_deps =
     [''plyfile'', ''tqdm'', ''numpy'', ''scipy'', ''matplotlib'', ''imageio'', ''configargparse'']"

fun install_gaussian_splatting_deps_loop :: "env \<Rightarrow> string list \<Rightarrow> world \<Rightarrow> (exn + unit) \<times> world" where
  "install_gaussian_splatting_deps_loop e [] w = (Inr (), w)"
| "install_gaussian_splatting_deps_loop e (dep # deps) w =
     (case run_command e (''pip install '' @ dep) (''Installing '' @ dep) w of
        (Inl x, w') \<Rightarrow> (Inl x, w')
      | (Inr ok, w') \<Rightarrow> install_gaussian_splatting_deps_loop e deps w')"

definition install_gaussian_splatting_deps :: "env \<Rightarrow> world \<Rightarrow> (exn + bool) \<times> world" where
  "install_gaussian_splatting_deps e w =
     (case install_gaussian_splatting_deps_loop e basic_deps
             (say (Fixed '':clapper: Installing Gaussian Splatting dependencies...'') w) of
        (Inl x, w1) \<Rightarrow> (Inl x, w1)
      | (Inr u, w1) \<Rightarrow>
          (let system = lower (platform_system e) in
           if system = ''linux'' then
             (case run_command e ''sudo apt-get update && sudo apt-get install -y colmap''
                     ''Installing COLMAP (Linux)'' w1 of
                (Inl x, w2) \<Rightarrow> (Inl x, w2)
              | (Inr ok, w2) \<Rightarrow> (Inr True, w2))
           else if system = ''darwin'' then
             (case run_command e ''brew install colmap'' ''Installing COLMAP (macOS)'' w1 of
                (Inl x, w2) \<Rightarrow> (Inl x, w2)
              | (Inr ok, w2) \<Rightarrow> (Inr True, w2))
           else
             (Inr True,
              say (Fixed '':warning:  COLMAP installation skipped on Windows - manual installation required'') w1)))"

text \<open>Lines 104 to 116.\<close>

definition additional_packages :: "string list" where
  "additional_packages =
     [''ffmpeg-python'', ''imageio-ffmpeg'', ''scikit-image'', ''scikit-learn'', ''trimesh'', ''pymeshlab'']"

fun install_additional_packages_loop :: "env \<Rightarrow> string list \<Rightarrow> world \<Rightarrow> (exn + unit) \<times> world" where
  "install_additional_packages_loop e [] w = (Inr (), w)"
| "install_additional_packages_loop e (package # packages) w =
     (case run_command e (''pip install '' @ package) (''Installing '' @ package) w of
        (Inl x, w') \<Rightarrow> (Inl x, w')
      | (Inr ok, w') \<Rightarrow> install_additional_packages_loop e packages w')"

definition install_additional_packages :: "env \<Rightarrow> world \<Rightarrow> (exn + unit) \<times> world" where
  "install_additional_packages e w = install_additional_packages_loop e additional_packages w"

section \<open>The model fetcher and the verifier\<close>

text \<open>Lines 118 to 165.\<close>

definition setup_midas_models :: "env \<Rightarrow> world \<Rightarrow> (exn + unit) \<times> world" where
  "setup_midas_models e w =
     (let w1 = say (Fixed '':inbox_tray: Setting up MiDaS models...'') w in
      case mkdir_exist_ok ''models'' (files w1) of
        Inl x \<Rightarrow> (Inl x, w1)
      | Inr f1 \<Rightarrow>
          (case open_write ''download_midas.py'' Midas_Script f1 of
             Inl x \<Rightarrow> (Inl x, w1\<lparr>files := f1\<rparr>)
           | Inr f2 \<Rightarrow>
               (case run_command e ''python download_midas.py'' ''Downloading MiDaS models''
                       (w1\<lparr>files := f2\<rparr>) of
                  (Inl x, w3) \<Rightarrow> (Inl x, w3)
                | (Inr ok, w3) \<Rightarrow>
                    if os_path_exists ''download_midas.py'' (files w3)
                    then (case os_remove ''download_midas.py'' (files w3) of
                            Inl x \<Rightarrow> (Inl x, w3)
                          | Inr f4 \<Rightarrow> (Inr (), w3\<lparr>files := f4\<rparr>))
                    else (Inr (), w3))))"

text \<open>Lines 167 to 225.\<close>

definition verify_installation :: "env \<Rightarrow> world \<Rightarrow> (exn + unit) \<times> world" where
  "verify_installation e w =
     (let w1 = say (Fixed '':mag: Verifying installation...'') w in
      case open_write ''test_installation.py'' Test_Script (files w1) of
        Inl x \<Rightarrow> (Inl x, w1)
      | Inr f2 \<Rightarrow>
          (case run_command e ''python test_installation.py'' ''Running installation tests''
                  (w1\<lparr>files := f2\<rparr>) of
             (Inl x, w3) \<Rightarrow> (Inl x, w3)
           | (Inr ok, w3) \<Rightarrow>
               if os_path_exists ''test_installation.py'' (files w3)
               then (case os_remove ''test_installation.py'' (files w3) of
                       Inl x \<Rightarrow> (Inl x, w3)
                     | Inr f4 \<Rightarrow> (Inr (), w3\<lparr>files := f4\<rparr>))
               else (Inr (), w3)))"

section \<open>The optional environment\<close>

text \<open>
  Lines 227 to 245. The prompt is written with \<^verbatim>\<open>end=""\<close>; it is kept as a console line
  of its own. \<^verbatim>\<open>input()\<close> raises \<^verbatim>\<open>EOFError\<close> when standard input is at its end.
\<close>

definition conda_commands :: "string \<Rightarrow> string list" where
  "conda_commands env_name =
     [''conda create -n '' @ env_name @ '' python=3.9 -y'', ''conda activate '' @ env_name]"

fun create_conda_env_loop :: "env \<Rightarrow> string list \<Rightarrow> world \<Rightarrow> (exn + unit) \<times> world" where
  "create_conda_env_loop e [] w = (Inr (), w)"
| "create_conda_env_loop e (cmd # commands) w =
     (case run_command e cmd (''Running: '' @ cmd) w of
        (Inl x, w') \<Rightarrow> (Inl x, w')
      | (Inr ok, w') \<Rightarrow> create_conda_env_loop e commands w')"

definition create_conda_env :: "env \<Rightarrow> world \<Rightarrow> (exn + unit) \<times> world" where
  "create_conda_env e w =
     (let w1 = say (Fixed '':snake: Do you want to create a conda environment? (y/n): '') w in
      case stdin_line e of
        None \<Rightarrow> (Inl EOFError, w1)
      | Some answer \<Rightarrow>
          (let response = strip (lower answer) in
           if response = ''y'' then
             (let env_name = ''insane_fusion'';
                  w2 = say (Env_Creating env_name) w1
              in case create_conda_env_loop e (conda_commands env_name) w2 of
                   (Inl x, w3) \<Rightarrow> (Inl x, w3)
                 | (Inr u, w3) \<Rightarrow>
                     (Inr (), say (Env_Activate_Hint env_name) (say (Env_Created env_name) w3)))
           else (Inr (), w1)))"

section \<open>The driver\<close>

type_synonym step = "env \<Rightarrow> world \<Rightarrow> (exn + unit) \<times> world"

text \<open>The driver calls \<^verbatim>\<open>func()\<close> and drops what it returns.\<close>

definition call :: "(env \<Rightarrow> world \<Rightarrow> (exn + 'a) \<times> world) \<Rightarrow> step" where
  "call func e w = (case func e w of (Inl x, w') \<Rightarrow> (Inl x, w') | (Inr r, w') \<Rightarrow> (Inr (), w'))"

text \<open>Lines 260 to 268.\<close>

definition steps :: "(string \<times> step) list" where
  "steps =
     [(''Installing PyTorch'', call install_pytorch),
      (''Installing OpenCV'', call install_opencv),
      (''Installing MiDaS dependencies'', call install_midas_dependencies),
      (''Installing Gaussian Splatting dependencies'', call install_gaussian_splatting_deps),
      (''Installing additional packages'', call install_additional_packages),
      (''Setting up MiDaS models'', call setup_midas_models),
      (''Verifying installation'', call verify_installation)]"

text \<open>
  Lines 270 to 276: \<^verbatim>\<open>except Exception\<close> reports the failure and goes on; an exception
  that is not an \<^verbatim>\<open>Exception\<close> leaves the loop.
\<close>

fun run_steps :: "env \<Rightarrow> (string \<times> step) list \<Rightarrow> world \<Rightarrow> (exn + unit) \<times> world" where
  "run_steps e [] w = (Inr (), w)"
| "run_steps e ((description, func) # rest) w =
     (case func e (say (Step_Header description) w) of
        (Inr u, w') \<Rightarrow> run_steps e rest w'
      | (Inl x, w') \<Rightarrow>
          if is_Exception x then run_steps e rest (say (Step_Failed description x) w')
          else (Inl x, w'))"

text \<open>Lines 278 to 289. The first three lines start with a literal backslash and \<open>n\<close>.\<close>

definition banner :: line where
  "banner = Fixed (CHR 0x5C # ''n:trophy: INSANE FUSION Real AI Setup Complete!'')"

definition closing_lines :: "line list" where
  "closing_lines =
     [banner,
      Fixed (CHR 0x5C # ''n:clipboard: Next steps:''),
      Fixed ''1. Start your Node.js server: npm run dev'',
      Fixed ''2. Upload a video and experience REAL AI processing!'',
      Fixed ''3. Monitor the console for real-time processing updates'',
      Fixed (CHR 0x5C # ''n:zap: System Requirements Met:''),
      Fixed '':ok: Real MiDaS depth estimation'',
      Fixed '':ok: Real Gaussian Splatting support'',
      Fixed '':ok: COLMAP camera calibration (if available)'',
      Fixed '':ok: Advanced AI enhancement algorithms'',
      Fixed '':ok: Cinema-grade 3D reconstruction'']"

text \<open>Lines 247 to 289. \<^verbatim>\<open>sys.exit(1)\<close> raises \<open>SystemExit 1\<close>.\<close>

definition main :: "env \<Rightarrow> world \<Rightarrow> (exn + unit) \<times> world" where
  "main e w =
     (let w1 = say (Fixed '':fire: INSANE FUSION - Real AI Setup'') w;
          w2 = say (Fixed (replicate 50 (CHR ''=''))) w1
      in case check_python_version e w2 of
           (ok, w3) \<Rightarrow>
             if \<not> ok then (Inl (SystemExit 1), w3)
             else
               (case create_conda_env e w3 of
                  (Inl x, w4) \<Rightarrow> (Inl x, w4)
                | (Inr u, w4) \<Rightarrow>
                    (case run_steps e steps w4 of
                       (Inl x, w5) \<Rightarrow> (Inl x, w5)
                     | (Inr u, w5) \<Rightarrow> (Inr (), w5\<lparr>console := console w5 @ closing_lines\<rparr>))))"

text \<open>
  Lines 291 and 292, with the interpreter's rule for the exit status of the process:
  0 when \<open>main\<close> returns, the argument of \<open>SystemExit\<close>, and 1 for any other
  exception that nobody caught.
\<close>

definition run_script :: "env \<Rightarrow> world \<Rightarrow> int \<times> world" where
  "run_script e w =
     (case main e w of
        (Inr u, w') \<Rightarrow> (0, w')
      | (Inl (SystemExit n), w') \<Rightarrow> (n, w')
      | (Inl x, w') \<Rightarrow> (1, w'))"

section \<open>The download helper script\<close>

text \<open>
  The text written to \<^verbatim>\<open>download_midas.py\<close> (lines 127 to 155) is a program of its own,
  run by a fresh interpreter. Its world has the files, its own console, and the
  calls of \<^verbatim>\<open>urllib.request.urlretrieve\<close> made so far (URL and target path).
\<close>

datatype fetch =
    Fetched string                     \<comment> \<open>the resource, written to the target path\<close>
  | Fetch_Failed string "string option"  \<comment> \<open>the message, and what was written before the failure\<close>

record script_env =
  torch_importable :: bool
  urlretrieve :: "nat \<Rightarrow> string \<Rightarrow> fetch"   \<comment> \<open>number of earlier attempts, URL\<close>

datatype script_line =
    Already_Exists string         \<comment> \<open>\<^verbatim>\<open>:ok: {model_name} already exists\<close>\<close>
  | Downloading string            \<comment> \<open>\<^verbatim>\<open>:inbox_tray: Downloading {model_name}...\<close>\<close>
  | Downloaded string             \<comment> \<open>\<^verbatim>\<open>:ok: Downloaded {model_name}\<close>\<close>
  | Download_Failed string string \<comment> \<open>\<^verbatim>\<open>:x: Failed to download {model_name}: {e}\<close>\<close>

record script_world =
  hfiles :: fs
  hconsole :: "script_line list"
  attempts :: "(string \<times> string) list"

definition hsay :: "script_line \<Rightarrow> script_world \<Rightarrow> script_world" where
  "hsay l w = w\<lparr>hconsole := hconsole w @ [l]\<rparr>"

text \<open>Lines 136 to 139: a dictionary, iterated in insertion order.\<close>

definition models :: "(string \<times> string) list" where
  "models =
     [(''midas_v21_small.pt'',
       ''https://github.com/intel-isl/MiDaS/releases/download/v2_1/midas_v21_small-70d51b78.pt''),
      (''midas_v21.pt'',
       ''https://github.com/intel-isl/MiDaS/releases/download/v2_1/midas_v21-f6b98070.pt'')]"

text \<open>\<^verbatim>\<open>models_dir / model_name\<close>\<close>

definition model_path :: "string \<Rightarrow> string" where
  "model_path model_name = ''models/'' @ model_name"

text \<open>Lines 141 to 152: the loop over the manifest, \<^verbatim>\<open>except Exception\<close> around each download.\<close>

fun download_loop :: "script_env \<Rightarrow> (string \<times> string) list \<Rightarrow> script_world \<Rightarrow> script_world" where
  "download_loop h [] w = w"
| "download_loop h ((model_name, url) # rest) w =
     (if hfiles w (model_path model_name) \<noteq> None
      then download_loop h rest (hsay (Already_Exists model_name) w)
      else
        (let w1 = hsay (Downloading model_name) w;
             w2 = w1\<lparr>attempts := attempts w1 @ [(url, model_path model_name)]\<rparr>
         in case urlretrieve h (length (attempts w1)) url of
              Fetched data \<Rightarrow>
                download_loop h rest
                  (hsay (Downloaded model_name)
                     (w2\<lparr>hfiles := (hfiles w2)(model_path model_name \<mapsto> File (Bytes data))\<rparr>))
            | Fetch_Failed msg partial \<Rightarrow>
                download_loop h rest
                  (hsay (Download_Failed model_name msg)
                     (case partial of
                        None \<Rightarrow> w2
                      | Some data \<Rightarrow>
                          w2\<lparr>hfiles := (hfiles w2)(model_path model_name \<mapsto> File (Bytes data))\<rparr>))))"

text \<open>Lines 132 to 152.\<close>

definition download_midas_models :: "script_env \<Rightarrow> script_world \<Rightarrow> (exn + unit) \<times> script_world" where
  "download_midas_models h w =
     (case mkdir_exist_ok ''models'' (hfiles w) of
        Inl x \<Rightarrow> (Inl x, w)
      | Inr f \<Rightarrow> (Inr (), download_loop h models (w\<lparr>hfiles := f\<rparr>)))"

text \<open>The script as a whole: its imports (line 127 needs torch), then the call of line 155.\<close>

definition download_midas_py :: "script_env \<Rightarrow> script_world \<Rightarrow> (exn + unit) \<times> script_world" where
  "download_midas_py h w =
     (if \<not> torch_importable h then (Inl (ImportError ''torch''), w)
      else download_midas_models h w)"

section \<open>Landmarks of a run\<close>

text \<open>
  The lines that tell how far a run got: the version report, the prompt, the header the
  driver prints before each step, the first line that each of the seven step functions
  prints itself, and the closing banner. No other line of the script is a landmark.
\<close>

fun landmark :: "line \<Rightarrow> bool" where
  "landmark (Version_Ok major minor micro) = True"
| "landmark (Step_Header description) = True"
| "landmark (Cmd_Start description) =
     (description = ''Installing OpenCV'' \<or> description = ''Installing timm''
      \<or> description = ''Installing ffmpeg-python'')"
| "landmark (Fixed text) =
     (text = '':snake: Do you want to create a conda environment? (y/n): ''
      \<or> text = '':fire: Installing PyTorch...''
      \<or> text = '':clapper: Installing Gaussian Splatting dependencies...''
      \<or> text = '':inbox_tray: Setting up MiDaS models...''
      \<or> text = '':mag: Verifying installation...''
      \<or> Fixed text = banner)"
| "landmark other = False"

definition step_landmarks :: "line list" where
  "step_landmarks =
     [Step_Header ''Installing PyTorch'', Fixed '':fire: Installing PyTorch...'',
      Step_Header ''Installing OpenCV'', Cmd_Start ''Installing OpenCV'',
      Step_Header ''Installing MiDaS dependencies'', Cmd_Start ''Installing timm'',
      Step_Header ''Installing Gaussian Splatting dependencies'',
      Fixed '':clapper: Installing Gaussian Splatting dependencies...'',
      Step_Header ''Installing additional packages'', Cmd_Start ''Installing ffmpeg-python'',
      Step_Header ''Setting up MiDaS models'', Fixed '':inbox_tray: Setting up MiDaS models...'',
      Step_Header ''Verifying installation'', Fixed '':mag: Verifying installation...'']"

text \<open>The landmarks on the console, oldest first.\<close>

abbreviation marks :: "world \<Rightarrow> line list" where
  "marks w \<equiv> filter landmark (console w)"

text \<open>
  What one turn of the driver's loop leaves behind when the step returns or raises an
  \<^verbatim>\<open>Exception\<close>: the header, whatever the step function did, and the failure line if it
  raised.
\<close>

definition attempt :: "env \<Rightarrow> string \<Rightarrow> step \<Rightarrow> world \<Rightarrow> world" where
  "attempt e description func w =
     (case func e (say (Step_Header description) w) of
        (Inr u, w') \<Rightarrow> w'
      | (Inl x, w') \<Rightarrow> say (Step_Failed description x) w')"

text \<open>
  The commands with which the second to the fifth step begin. These four steps hand a
  command to the runner before anything else; the first step runs nothing when a torch
  with CUDA is found, and the last two work on the files first.
\<close>

definition step_commands :: "string list" where
  "step_commands =
     [''pip install opencv-python opencv-contrib-python'', ''pip install timm'',
      ''pip install plyfile'', ''pip install ffmpeg-python'']"

definition first_command :: "string \<Rightarrow> bool" where
  "first_command command = (command \<in> set step_commands)"

text \<open>The opening commands among those handed to the runner so far, oldest first.\<close>

abbreviation firsts :: "world \<Rightarrow> string list" where
  "firsts w \<equiv> filter first_command (history w)"

text \<open>An environment where the output of every child decodes as text.\<close>

definition quiet :: "env \<Rightarrow> bool" where
  "quiet e = (\<forall>past command f. decodable (fst (shell e past command f)))"

section \<open>Example environments\<close>

text \<open>A fresh working directory, nothing printed, nothing run.\<close>

definition clean_world :: world where
  "clean_world = \<lparr>files = Map.empty, console = [], history = []\<rparr>"

text \<open>A machine where every command exits with status 1 and leaves the files alone.\<close>

definition offline_shell :: "string list \<Rightarrow> string \<Rightarrow> fs \<Rightarrow> child \<times> fs" where
  "offline_shell past command f =
     (\<lparr>exit_status = 1, raw_stdout = Decoded [], raw_stderr = Decoded ''not found''\<rparr>, f)"

definition offline_env :: env where
  "offline_env =
     \<lparr>version_info = (3, 10, 4), sys_version = ''3.10.4'', platform_system = ''Linux'',
      stdin_line = Some ''n'', torch = Import_Fails ''No module named torch'',
      shell = offline_shell\<rparr>"





text \<open>A machine where every child succeeds but writes bytes that are not text.\<close>

definition garbled_shell :: "string list \<Rightarrow> string \<Rightarrow> fs \<Rightarrow> child \<times> fs" where
  "garbled_shell past command f =
     (\<lparr>exit_status = 0, raw_stdout = Undecodable, raw_stderr = Decoded []\<rparr>, f)"

definition garbled_env :: env where
  "garbled_env = offline_env\<lparr>shell := garbled_shell\<rparr>"

text \<open>The offline machine run with standard input closed.\<close>

definition closed_stdin_env :: env where
  "closed_stdin_env = offline_env\<lparr>stdin_line := None\<rparr>"

text \<open>The helper script with no network: every download fails and writes nothing.\<close>

definition no_network :: script_env where
  "no_network =
     \<lparr>torch_importable = True, urlretrieve = (\<lambda>n url. Fetch_Failed ''timed out'' None)\<rparr>"

text \<open>The helper script run by an interpreter that has no torch.\<close>

definition no_torch :: script_env where
  "no_torch = \<lparr>torch_importable = False, urlretrieve = (\<lambda>n url. Fetched ''weights'')\<rparr>"

definition fresh_script_world :: script_world where
  "fresh_script_world = \<lparr>hfiles = Map.empty, hconsole = [], attempts = []\<rparr>"

text \<open>A second run: the small model is already in \<^verbatim>\<open>models/\<close>.\<close>

definition half_done_script_world :: script_world where
  "half_done_script_world =
     \<lparr>hfiles = [''models'' \<mapsto> Dir, ''models/midas_v21_small.pt'' \<mapsto> File (Bytes ''weights'')],
      hconsole = [], attempts = []\<rparr>"

section \<open>Properties of the command runner\<close>

lemma run_command_nul:
  assumes "CHR 0x00 \<in> set c"
  shows "run_command e c d w =
     (Inl (ValueError ''embedded null byte''),
      \<lparr>files = files w, console = console w @ [Cmd_Start d], history = history w @ [c]\<rparr>)"
  using assms by (simp add: run_command_def subprocess_run_def say_def)

lemma run_command_decoded:
  assumes "CHR 0x00 \<notin> set c" and "shell e (history w) c (files w) = (ch, f)" and "decodable ch"
  shows "run_command e c d w =
     (Inr (exit_status ch = 0),
      \<lparr>files = f,
       console = console w @ [Cmd_Start d,
         if exit_status ch = 0 then Cmd_Success d else Cmd_Failed d (text_of (raw_stderr ch))],
       history = history w @ [c]\<rparr>)"
  using assms
  by (cases "raw_stdout ch"; cases "raw_stderr ch")
     (simp_all add: run_command_def subprocess_run_def say_def decodable_def text_of_def)

lemma run_command_undecodable:
  assumes "CHR 0x00 \<notin> set c" and "shell e (history w) c (files w) = (ch, f)" and "\<not> decodable ch"
  shows "run_command e c d w =
     (Inl (UnicodeDecodeError ''invalid start byte''),
      \<lparr>files = f, console = console w @ [Cmd_Start d], history = history w @ [c]\<rparr>)"
  using assms
  by (cases "raw_stdout ch"; cases "raw_stderr ch")
     (simp_all add: run_command_def subprocess_run_def say_def decodable_def)

text \<open>What every call of \<open>run_command\<close> does, whichever way it ends.\<close>

lemma run_command_cases:
  obtains (returns) ok w' where "run_command e c d w = (Inr ok, w')"
      "history w' = history w @ [c]"
      "console w' = console w @ [Cmd_Start d, if ok then Cmd_Success d
          else Cmd_Failed d (text_of (raw_stderr (fst (shell e (history w) c (files w)))))]"
      "CHR 0x00 \<notin> set c" "decodable (fst (shell e (history w) c (files w)))"
      "ok = (exit_status (fst (shell e (history w) c (files w))) = 0)"
    | (raises) x w' where "run_command e c d w = (Inl x, w')"
      "history w' = history w @ [c]" "console w' = console w @ [Cmd_Start d]"
      "x = ValueError ''embedded null byte'' \<or> x = UnicodeDecodeError ''invalid start byte''"
      "CHR 0x00 \<in> set c \<or> \<not> decodable (fst (shell e (history w) c (files w)))"
proof (cases "CHR 0x00 \<in> set c")
  case True
  show ?thesis
  proof (rule raises)
    show "run_command e c d w =
     (Inl (ValueError ''embedded null byte''),
      \<lparr>files = files w, console = console w @ [Cmd_Start d], history = history w @ [c]\<rparr>)"
      using True by (rule run_command_nul)
  qed (use True in simp_all)
next
  case False
  obtain ch f where sh: "shell e (history w) c (files w) = (ch, f)"
    by (cases "shell e (history w) c (files w)")
  show ?thesis
  proof (cases "decodable ch")
    case True
    show ?thesis
    proof (rule returns)
      show "run_command e c d w =
        (Inr (exit_status ch = 0),
         \<lparr>files = f,
          console = console w @ [Cmd_Start d,
            if exit_status ch = 0 then Cmd_Success d else Cmd_Failed d (text_of (raw_stderr ch))],
          history = history w @ [c]\<rparr>)"
        using False sh True by (rule run_command_decoded)
    qed (use False sh True in simp_all)
  next
    case undec: False
    show ?thesis
    proof (rule raises)
      show "run_command e c d w =
        (Inl (UnicodeDecodeError ''invalid start byte''),
         \<lparr>files = f, console = console w @ [Cmd_Start d], history = history w @ [c]\<rparr>)"
        using False sh undec by (rule run_command_undecodable)
    qed (use False sh undec in simp_all)
  qed
qed

lemma run_command_history: "history (snd (run_command e c d w)) = history w @ [c]"
  by (cases rule: run_command_cases [of e c d w]) simp_all

lemma run_command_raises:
  "fst (run_command e c d w) = Inl x \<Longrightarrow> is_Exception x"
  by (cases rule: run_command_cases [of e c d w]) auto

lemma run_command_quiet:
  assumes "quiet e" and "CHR 0x00 \<notin> set c"
  shows "fst (run_command e c d w) = Inr (exit_status (fst (shell e (history w) c (files w))) = 0)"
  using assms by (cases rule: run_command_cases [of e c d w]) (auto simp add: quiet_def)


lemma offline_run_command:
  "CHR 0x00 \<notin> set c \<Longrightarrow>
   run_command offline_env c d w =
     (Inr False, \<lparr>files = files w, console = console w @ [Cmd_Start d, Cmd_Failed d ''not found''],
        history = history w @ [c]\<rparr>)"
  by (simp add: run_command_def subprocess_run_def offline_env_def offline_shell_def say_def)

lemma garbled_run_command:
  "CHR 0x00 \<notin> set c \<Longrightarrow>
   run_command garbled_env c d w =
     (Inl (UnicodeDecodeError ''invalid start byte''),
      \<lparr>files = files w, console = console w @ [Cmd_Start d], history = history w @ [c]\<rparr>)"
  by (simp add: run_command_def subprocess_run_def garbled_env_def offline_env_def
      garbled_shell_def say_def)




section \<open>Properties of the package loops\<close>

lemma nul_pip: "CHR 0x00 \<in> set (''pip install '' @ p) \<longleftrightarrow> CHR 0x00 \<in> set p"
  by simp

lemma gaussian_loop_prefix:
  "\<exists>k\<le>length ps.
     history (snd (install_gaussian_splatting_deps_loop e ps w)) =
       history w @ map (\<lambda>p. ''pip install '' @ p) (take k ps)
     \<and> (fst (install_gaussian_splatting_deps_loop e ps w) = Inr () \<longrightarrow> k = length ps)"
proof (induction ps arbitrary: w)
  case Nil
  then show ?case by simp
next
  case (Cons p ps)
  show ?case
  proof (cases rule: run_command_cases [of e "''pip install '' @ p" "''Installing '' @ p" w])
    case (returns ok w')
    from Cons.IH [of w'] obtain k where "k \<le> length ps"
      "history (snd (install_gaussian_splatting_deps_loop e ps w')) =
         history w' @ map (\<lambda>p. ''pip install '' @ p) (take k ps)"
      "fst (install_gaussian_splatting_deps_loop e ps w') = Inr () \<longrightarrow> k = length ps"
      by blast
    with returns(1,2) show ?thesis
      by (intro exI [of _ "Suc k"]) simp
  next
    case (raises x w')
    then show ?thesis
      by (intro exI [of _ "Suc 0"]) simp
  qed
qed

lemma gaussian_loop_raises:
  "fst (install_gaussian_splatting_deps_loop e ps w) = Inl x \<Longrightarrow>
   x = ValueError ''embedded null byte'' \<or> x = UnicodeDecodeError ''invalid start byte''"
proof (induction ps arbitrary: w)
  case Nil
  then show ?case by simp
next
  case (Cons p ps)
  show ?case
  proof (cases rule: run_command_cases [of e "''pip install '' @ p" "''Installing '' @ p" w])
    case (returns ok w')
    with Cons.prems Cons.IH [of w'] show ?thesis by simp
  next
    case (raises y w')
    with Cons.prems show ?thesis by auto
  qed
qed

lemma gaussian_loop_quiet:
  assumes "quiet e" and "\<forall>p\<in>set ps. CHR 0x00 \<notin> set p"
  shows "fst (install_gaussian_splatting_deps_loop e ps w) = Inr ()"
  using assms(2)
proof (induction ps arbitrary: w)
  case Nil
  then show ?case by simp
next
  case (Cons p ps)
  show ?case
  proof (cases rule: run_command_cases [of e "''pip install '' @ p" "''Installing '' @ p" w])
    case (returns ok w')
    with Cons show ?thesis by simp
  next
    case (raises y w')
    with Cons.prems assms(1) show ?thesis by (simp add: quiet_def)
  qed
qed

lemma additional_loop_prefix:
  "\<exists>k\<le>length ps.
     history (snd (install_additional_packages_loop e ps w)) =
       history w @ map (\<lambda>p. ''pip install '' @ p) (take k ps)
     \<and> (fst (install_additional_packages_loop e ps w) = Inr () \<longrightarrow> k = length ps)"
proof (induction ps arbitrary: w)
  case Nil
  then show ?case by simp
next
  case (Cons p ps)
  show ?case
  proof (cases rule: run_command_cases [of e "''pip install '' @ p" "''Installing '' @ p" w])
    case (returns ok w')
    from Cons.IH [of w'] obtain k where "k \<le> length ps"
      "history (snd (install_additional_packages_loop e ps w')) =
         history w' @ map (\<lambda>p. ''pip install '' @ p) (take k ps)"
      "fst (install_additional_packages_loop e ps w') = Inr () \<longrightarrow> k = length ps"
      by blast
    with returns(1,2) show ?thesis
      by (intro exI [of _ "Suc k"]) simp
  next
    case (raises x w')
    then show ?thesis
      by (intro exI [of _ "Suc 0"]) simp
  qed
qed

lemma additional_loop_raises:
  "fst (install_additional_packages_loop e ps w) = Inl x \<Longrightarrow>
   x = ValueError ''embedded null byte'' \<or> x = UnicodeDecodeError ''invalid start byte''"
proof (induction ps arbitrary: w)
  case Nil
  then show ?case by simp
next
  case (Cons p ps)
  show ?case
  proof (cases rule: run_command_cases [of e "''pip install '' @ p" "''Installing '' @ p" w])
    case (returns ok w')
    with Cons.prems Cons.IH [of w'] show ?thesis by simp
  next
    case (raises y w')
    with Cons.prems show ?thesis by auto
  qed
qed

lemma additional_loop_quiet:
  assumes "quiet e" and "\<forall>p\<in>set ps. CHR 0x00 \<notin> set p"
  shows "fst (install_additional_packages_loop e ps w) = Inr ()"
  using assms(2)
proof (induction ps arbitrary: w)
  case Nil
  then show ?case by simp
next
  case (Cons p ps)
  show ?case
  proof (cases rule: run_command_cases [of e "''pip install '' @ p" "''Installing '' @ p" w])
    case (returns ok w')
    with Cons show ?thesis by simp
  next
    case (raises y w')
    with Cons.prems assms(1) show ?thesis by (simp add: quiet_def)
  qed
qed


lemma midas_loop_prefix:
  "\<exists>k\<le>length ps.
     history (snd (install_midas_dependencies_loop e ps w)) =
       history w @ map (\<lambda>p. ''pip install '' @ p) (take k ps)
     \<and> (fst (install_midas_dependencies_loop e ps w) = Inr True \<longrightarrow> k = length ps)"
proof (induction ps arbitrary: w)
  case Nil
  then show ?case by simp
next
  case (Cons p ps)
  show ?case
  proof (cases rule: run_command_cases [of e "''pip install '' @ p" "''Installing '' @ p" w])
    case (returns ok w')
    show ?thesis
    proof (cases ok)
      case True
      from Cons.IH [of w'] obtain k where "k \<le> length ps"
        "history (snd (install_midas_dependencies_loop e ps w')) =
           history w' @ map (\<lambda>p. ''pip install '' @ p) (take k ps)"
        "fst (install_midas_dependencies_loop e ps w') = Inr True \<longrightarrow> k = length ps"
        by blast
      with returns(1,2) True show ?thesis
        by (intro exI [of _ "Suc k"]) simp
    next
      case False
      with returns(1,2) show ?thesis
        by (intro exI [of _ "Suc 0"]) simp
    qed
  next
    case (raises x w')
    then show ?thesis
      by (intro exI [of _ "Suc 0"]) simp
  qed
qed

lemma midas_loop_raises:
  "fst (install_midas_dependencies_loop e ps w) = Inl x \<Longrightarrow>
   x = ValueError ''embedded null byte'' \<or> x = UnicodeDecodeError ''invalid start byte''"
proof (induction ps arbitrary: w)
  case Nil
  then show ?case by simp
next
  case (Cons p ps)
  show ?case
  proof (cases rule: run_command_cases [of e "''pip install '' @ p" "''Installing '' @ p" w])
    case (returns ok w')
    with Cons.prems Cons.IH [of w'] show ?thesis by (cases ok) simp_all
  next
    case (raises y w')
    with Cons.prems show ?thesis by auto
  qed
qed

lemma midas_loop_quiet:
  assumes "quiet e" and "\<forall>p\<in>set ps. CHR 0x00 \<notin> set p"
  shows "\<exists>b. fst (install_midas_dependencies_loop e ps w) = Inr b"
  using assms(2)
proof (induction ps arbitrary: w)
  case Nil
  then show ?case by auto
next
  case (Cons p ps)
  show ?case
  proof (cases rule: run_command_cases [of e "''pip install '' @ p" "''Installing '' @ p" w])
    case (returns ok w')
    with Cons show ?thesis by (cases ok) auto
  next
    case (raises y w')
    with Cons.prems assms(1) show ?thesis by (simp add: quiet_def)
  qed
qed

lemma midas_loop_True:
  "fst (install_midas_dependencies_loop e ps w) = Inr True \<Longrightarrow>
   history (snd (install_midas_dependencies_loop e ps w)) =
     history w @ map (\<lambda>p. ''pip install '' @ p) ps
   \<and> console (snd (install_midas_dependencies_loop e ps w)) =
     console w @ concat (map (\<lambda>p. [Cmd_Start (''Installing '' @ p), Cmd_Success (''Installing '' @ p)]) ps)"
proof (induction ps arbitrary: w)
  case Nil
  then show ?case by simp
next
  case (Cons p ps)
  show ?case
  proof (cases rule: run_command_cases [of e "''pip install '' @ p" "''Installing '' @ p" w])
    case (returns ok w')
    with Cons.prems have ok: ok by (cases ok) simp_all
    with returns Cons.prems have "fst (install_midas_dependencies_loop e ps w') = Inr True"
      by simp
    from Cons.IH [OF this] returns(1,2,3) ok show ?thesis by simp
  next
    case (raises y w')
    with Cons.prems show ?thesis by simp
  qed
qed

lemma midas_loop_False:
  "fst (install_midas_dependencies_loop e ps w) = Inr False \<Longrightarrow>
   \<exists>k err. k < length ps
     \<and> history (snd (install_midas_dependencies_loop e ps w)) =
         history w @ map (\<lambda>p. ''pip install '' @ p) (take (Suc k) ps)
     \<and> console (snd (install_midas_dependencies_loop e ps w)) =
         console w
         @ concat (map (\<lambda>p. [Cmd_Start (''Installing '' @ p), Cmd_Success (''Installing '' @ p)]) (take k ps))
         @ [Cmd_Start (''Installing '' @ ps ! k), Cmd_Failed (''Installing '' @ ps ! k) err]"
proof (induction ps arbitrary: w)
  case Nil
  then show ?case by simp
next
  case (Cons p ps)
  show ?case
  proof (cases rule: run_command_cases [of e "''pip install '' @ p" "''Installing '' @ p" w])
    case (returns ok w')
    show ?thesis
    proof (cases ok)
      case False
      with returns(1,2,3) show ?thesis
        by (intro exI [of _ 0]
            exI [of _ "text_of (raw_stderr (fst (shell e (history w) (''pip install '' @ p) (files w))))"])
           simp
    next
      case True
      with returns Cons.prems have "fst (install_midas_dependencies_loop e ps w') = Inr False"
        by simp
      from Cons.IH [OF this] obtain k err where k: "k < length ps"
        and h: "history (snd (install_midas_dependencies_loop e ps w')) =
           history w' @ map (\<lambda>p. ''pip install '' @ p) (take (Suc k) ps)"
        and c: "console (snd (install_midas_dependencies_loop e ps w')) =
           console w'
           @ concat (map (\<lambda>p. [Cmd_Start (''Installing '' @ p), Cmd_Success (''Installing '' @ p)]) (take k ps))
           @ [Cmd_Start (''Installing '' @ ps ! k), Cmd_Failed (''Installing '' @ ps ! k) err]"
        by blast
      with returns(1,2,3) True show ?thesis
        by (intro exI [of _ "Suc k"] exI [of _ err]) simp
    qed
  next
    case (raises y w')
    with Cons.prems show ?thesis by simp
  qed
qed


text \<open>
  C1, as amended. Every package list \<open>ps\<close>: each of the three loops hands the packages
  to the runner in listed order, one command each, with none skipped and none repeated,
  up to the package where the loop is left. The loops of \<open>install_gaussian_splatting_deps\<close>
  and \<open>install_additional_packages\<close> are left early only when the runner itself raises
  (a NUL in the command, output that is not text): where no command does, they hand over
  the whole list whatever the exit statuses. The loop of \<open>install_midas_dependencies\<close> is
  left also at the first package whose command fails: it returns \<open>True\<close> with the whole
  list handed over and every command successful, or \<open>False\<close> with the list handed
  over up to the first failed command.
\<close>

theorem package_lists_passed_in_order:
  "(\<exists>k\<le>length ps.
       history (snd (install_gaussian_splatting_deps_loop e ps w)) =
         history w @ map (\<lambda>p. ''pip install '' @ p) (take k ps)
       \<and> (fst (install_gaussian_splatting_deps_loop e ps w) = Inr () \<longrightarrow> k = length ps))
   \<and> (\<exists>k\<le>length ps.
       history (snd (install_additional_packages_loop e ps w)) =
         history w @ map (\<lambda>p. ''pip install '' @ p) (take k ps)
       \<and> (fst (install_additional_packages_loop e ps w) = Inr () \<longrightarrow> k = length ps))
   \<and> (\<exists>k\<le>length ps.
       history (snd (install_midas_dependencies_loop e ps w)) =
         history w @ map (\<lambda>p. ''pip install '' @ p) (take k ps)
       \<and> (fst (install_midas_dependencies_loop e ps w) = Inr True \<longrightarrow> k = length ps))
   \<and> (quiet e \<and> (\<forall>p\<in>set ps. CHR 0x00 \<notin> set p) \<longrightarrow>
         fst (install_gaussian_splatting_deps_loop e ps w) = Inr ()
         \<and> fst (install_additional_packages_loop e ps w) = Inr ()
         \<and> (\<exists>b. fst (install_midas_dependencies_loop e ps w) = Inr b))
   \<and> (fst (install_midas_dependencies_loop e ps w) = Inr True \<longrightarrow>
         console (snd (install_midas_dependencies_loop e ps w)) =
           console w @ concat (map (\<lambda>p. [Cmd_Start (''Installing '' @ p),
                                           Cmd_Success (''Installing '' @ p)]) ps))
   \<and> (fst (install_midas_dependencies_loop e ps w) = Inr False \<longrightarrow>
         (\<exists>k err. k < length ps
           \<and> history (snd (install_midas_dependencies_loop e ps w)) =
               history w @ map (\<lambda>p. ''pip install '' @ p) (take (Suc k) ps)
           \<and> console (snd (install_midas_dependencies_loop e ps w)) =
               console w
               @ concat (map (\<lambda>p. [Cmd_Start (''Installing '' @ p),
                                     Cmd_Success (''Installing '' @ p)]) (take k ps))
               @ [Cmd_Start (''Installing '' @ ps ! k),
                  Cmd_Failed (''Installing '' @ ps ! k) err]))
   \<and> (\<forall>x. fst (install_gaussian_splatting_deps_loop e ps w) = Inl x
            \<or> fst (install_additional_packages_loop e ps w) = Inl x
            \<or> fst (install_midas_dependencies_loop e ps w) = Inl x \<longrightarrow>
          x = ValueError ''embedded null byte'' \<or> x = UnicodeDecodeError ''invalid start byte'')"
proof (intro conjI)
  show "\<exists>k\<le>length ps.
       history (snd (install_gaussian_splatting_deps_loop e ps w)) =
         history w @ map (\<lambda>p. ''pip install '' @ p) (take k ps)
       \<and> (fst (install_gaussian_splatting_deps_loop e ps w) = Inr () \<longrightarrow> k = length ps)"
    by (rule gaussian_loop_prefix)
  show "\<exists>k\<le>length ps.
       history (snd (install_additional_packages_loop e ps w)) =
         history w @ map (\<lambda>p. ''pip install '' @ p) (take k ps)
       \<and> (fst (install_additional_packages_loop e ps w) = Inr () \<longrightarrow> k = length ps)"
    by (rule additional_loop_prefix)
  show "\<exists>k\<le>length ps.
       history (snd (install_midas_dependencies_loop e ps w)) =
         history w @ map (\<lambda>p. ''pip install '' @ p) (take k ps)
       \<and> (fst (install_midas_dependencies_loop e ps w) = Inr True \<longrightarrow> k = length ps)"
    by (rule midas_loop_prefix)
  show "quiet e \<and> (\<forall>p\<in>set ps. CHR 0x00 \<notin> set p) \<longrightarrow>
         fst (install_gaussian_splatting_deps_loop e ps w) = Inr ()
         \<and> fst (install_additional_packages_loop e ps w) = Inr ()
         \<and> (\<exists>b. fst (install_midas_dependencies_loop e ps w) = Inr b)"
    using gaussian_loop_quiet [of e ps w] additional_loop_quiet [of e ps w]
      midas_loop_quiet [of e ps w] by blast
  show "fst (install_midas_dependencies_loop e ps w) = Inr True \<longrightarrow>
         console (snd (install_midas_dependencies_loop e ps w)) =
           console w @ concat (map (\<lambda>p. [Cmd_Start (''Installing '' @ p),
                                           Cmd_Success (''Installing '' @ p)]) ps)"
    using midas_loop_True [of e ps w] by blast
  show "fst (install_midas_dependencies_loop e ps w) = Inr False \<longrightarrow>
         (\<exists>k err. k < length ps
           \<and> history (snd (install_midas_dependencies_loop e ps w)) =
               history w @ map (\<lambda>p. ''pip install '' @ p) (take (Suc k) ps)
           \<and> console (snd (install_midas_dependencies_loop e ps w)) =
               console w
               @ concat (map (\<lambda>p. [Cmd_Start (''Installing '' @ p),
                                     Cmd_Success (''Installing '' @ p)]) (take k ps))
               @ [Cmd_Start (''Installing '' @ ps ! k),
                  Cmd_Failed (''Installing '' @ ps ! k) err])"
    using midas_loop_False [of e ps w] by blast
  show "\<forall>x. fst (install_gaussian_splatting_deps_loop e ps w) = Inl x
            \<or> fst (install_additional_packages_loop e ps w) = Inl x
            \<or> fst (install_midas_dependencies_loop e ps w) = Inl x \<longrightarrow>
          x = ValueError ''embedded null byte'' \<or> x = UnicodeDecodeError ''invalid start byte''"
    using gaussian_loop_raises [of e ps w] additional_loop_raises [of e ps w]
      midas_loop_raises [of e ps w] by blast
qed

lemma quiet_offline: "quiet offline_env"
  by (simp add: quiet_def offline_env_def offline_shell_def decodable_def)

theorem package_lists_passed_in_order_witness:
  "history (snd (install_additional_packages offline_env clean_world)) =
     [''pip install ffmpeg-python'', ''pip install imageio-ffmpeg'', ''pip install scikit-image'',
      ''pip install scikit-learn'', ''pip install trimesh'', ''pip install pymeshlab'']
   \<and> (\<exists>k\<le>length midas_packages.
         history (snd (install_midas_dependencies offline_env clean_world)) =
           map (\<lambda>p. ''pip install '' @ p) (take k midas_packages))"
proof -
  note t = package_lists_passed_in_order [of additional_packages offline_env clean_world]
  have "fst (install_additional_packages_loop offline_env additional_packages clean_world) = Inr ()"
    using t quiet_offline by (simp add: additional_packages_def)
  moreover from t obtain k where "k \<le> length additional_packages"
    "history (snd (install_additional_packages_loop offline_env additional_packages clean_world)) =
       history clean_world @ map (\<lambda>p. ''pip install '' @ p) (take k additional_packages)"
    "fst (install_additional_packages_loop offline_env additional_packages clean_world) = Inr ()
       \<longrightarrow> k = length additional_packages"
    by blast
  ultimately have a: "history (snd (install_additional_packages offline_env clean_world)) =
     [''pip install ffmpeg-python'', ''pip install imageio-ffmpeg'', ''pip install scikit-image'',
      ''pip install scikit-learn'', ''pip install trimesh'', ''pip install pymeshlab'']"
    by (simp add: install_additional_packages_def additional_packages_def clean_world_def)
  from package_lists_passed_in_order [of midas_packages offline_env clean_world]
  obtain k where "k \<le> length midas_packages"
    "history (snd (install_midas_dependencies_loop offline_env midas_packages clean_world)) =
        history clean_world @ map (\<lambda>p. ''pip install '' @ p) (take k midas_packages)"
    by blast
  then have b: "\<exists>k\<le>length midas_packages.
         history (snd (install_midas_dependencies offline_env clean_world)) =
           map (\<lambda>p. ''pip install '' @ p) (take k midas_packages)"
    by (auto simp add: install_midas_dependencies_def clean_world_def)
  from a b show ?thesis by (rule conjI)
qed

text \<open>
  C1 as stated fails for the depth-model list: when the command for \<open>timm\<close> fails,
  \<open>einops\<close> is never handed to the runner.
\<close>

theorem midas_stops_at_first_failure:
  "history (snd (install_midas_dependencies offline_env clean_world)) = [''pip install timm'']
   \<and> ''pip install einops'' \<notin> set (history (snd (install_midas_dependencies offline_env clean_world)))"
  by (simp add: install_midas_dependencies_def midas_packages_def offline_run_command
      clean_world_def)

section \<open>Properties of the framework installer\<close>

lemma say_history: "history (say l w) = history w"
  by (simp add: say_def)

lemma say_files: "files (say l w) = files w"
  by (simp add: say_def)

lemma say_console: "console (say l w) = console w @ [l]"
  by (simp add: say_def)

lemma install_pytorch_present:
  "torch e = Imported True \<Longrightarrow>
   install_pytorch e w =
     (Inr True, say (Fixed '':ok: PyTorch with CUDA already installed'')
                  (say (Fixed '':fire: Installing PyTorch...'') w))"
  by (simp add: install_pytorch_def)

lemma install_pytorch_absent:
  "torch e \<noteq> Imported True \<Longrightarrow>
   install_pytorch e w =
     run_command e (pytorch_command e) ''Installing PyTorch''
       (say (Fixed '':fire: Installing PyTorch...'') w)"
  by (cases "torch e") (auto simp add: install_pytorch_def Let_def)




section \<open>Properties of the optional environment\<close>

lemma create_conda_env_loop_prefix:
  "\<exists>k\<le>length cs.
     history (snd (create_conda_env_loop e cs w)) = history w @ take k cs
     \<and> (fst (create_conda_env_loop e cs w) = Inr () \<longrightarrow> k = length cs)
     \<and> (cs \<noteq> [] \<longrightarrow> 0 < k)"
proof (induction cs arbitrary: w)
  case Nil
  then show ?case by simp
next
  case (Cons c cs)
  show ?case
  proof (cases rule: run_command_cases [of e c "''Running: '' @ c" w])
    case (returns ok w')
    from Cons.IH [of w'] obtain k where "k \<le> length cs"
      "history (snd (create_conda_env_loop e cs w')) = history w' @ take k cs"
      "fst (create_conda_env_loop e cs w') = Inr () \<longrightarrow> k = length cs"
      by blast
    with returns(1,2) show ?thesis
      by (intro exI [of _ "Suc k"]) simp
  next
    case (raises x w')
    then show ?thesis
      by (intro exI [of _ "Suc 0"]) simp
  qed
qed

lemma create_conda_env_loop_quiet:
  assumes "quiet e" and "\<forall>c\<in>set cs. CHR 0x00 \<notin> set c"
  shows "fst (create_conda_env_loop e cs w) = Inr ()"
  using assms(2)
proof (induction cs arbitrary: w)
  case Nil
  then show ?case by simp
next
  case (Cons c cs)
  show ?case
  proof (cases rule: run_command_cases [of e c "''Running: '' @ c" w])
    case (returns ok w')
    with Cons show ?thesis by simp
  next
    case (raises y w')
    with Cons.prems assms(1) show ?thesis by (simp add: quiet_def)
  qed
qed

lemma create_conda_env_loop_raises:
  "fst (create_conda_env_loop e cs w) = Inl x \<Longrightarrow> is_Exception x"
proof (induction cs arbitrary: w)
  case Nil
  then show ?case by simp
next
  case (Cons c cs)
  show ?case
  proof (cases rule: run_command_cases [of e c "''Running: '' @ c" w])
    case (returns ok w')
    with Cons.prems Cons.IH [of w'] show ?thesis by simp
  next
    case (raises y w')
    with Cons.prems show ?thesis by auto
  qed
qed

lemma create_conda_env_eof:
  "stdin_line e = None \<Longrightarrow>
   create_conda_env e w =
     (Inl EOFError, say (Fixed '':snake: Do you want to create a conda environment? (y/n): '') w)"
  by (simp add: create_conda_env_def)

lemma create_conda_env_declines:
  "stdin_line e = Some a \<Longrightarrow> strip (lower a) \<noteq> ''y'' \<Longrightarrow>
   create_conda_env e w =
     (Inr (), say (Fixed '':snake: Do you want to create a conda environment? (y/n): '') w)"
  by (simp add: create_conda_env_def)

lemma create_conda_env_accepts:
  "stdin_line e = Some a \<Longrightarrow> strip (lower a) = ''y'' \<Longrightarrow>
   history (snd (create_conda_env e w)) =
     history (snd (create_conda_env_loop e (conda_commands ''insane_fusion'')
       (say (Env_Creating ''insane_fusion'')
         (say (Fixed '':snake: Do you want to create a conda environment? (y/n): '') w))))
   \<and> (fst (create_conda_env e w) = Inr () \<longleftrightarrow>
      fst (create_conda_env_loop e (conda_commands ''insane_fusion'')
       (say (Env_Creating ''insane_fusion'')
         (say (Fixed '':snake: Do you want to create a conda environment? (y/n): '') w))) = Inr ())"
  by (simp add: create_conda_env_def Let_def say_history split: prod.splits sum.splits)

lemma normalise_n: "strip (lower ''n'') \<noteq> ''y''"
  by code_simp

lemma normalise_examples:
  "strip (lower ''Y'') = ''y''" "strip (lower '' y '') = ''y''" "strip (lower ''yes'') \<noteq> ''y''"
  by code_simp+

text \<open>
  C8. When the answer to the prompt is \<open>n\<close>, \<open>create_conda_env\<close> hands no command to the
  runner: neither the creation nor the activation command.
\<close>

theorem create_conda_env_declined:
  assumes "stdin_line e = Some ''n''"
  shows "history (snd (create_conda_env e w)) = history w"
  using assms normalise_n by (simp add: create_conda_env_declines say_history)

theorem create_conda_env_declined_witness:
  "history (snd (create_conda_env offline_env clean_world)) = []"
  using create_conda_env_declined [of offline_env clean_world]
  by (simp add: offline_env_def clean_world_def)


lemma create_conda_env_accepted_history:
  assumes "stdin_line e = Some a" and "strip (lower a) = ''y''"
  shows "(history (snd (create_conda_env e w)) =
            history w @ [''conda create -n insane_fusion python=3.9 -y'', ''conda activate insane_fusion'']
          \<or> history (snd (create_conda_env e w)) =
            history w @ [''conda create -n insane_fusion python=3.9 -y''])
    \<and> (fst (create_conda_env e w) = Inr () \<or> quiet e \<longrightarrow>
          history (snd (create_conda_env e w)) =
            history w @ [''conda create -n insane_fusion python=3.9 -y'', ''conda activate insane_fusion''])"
proof -
  let ?v = "say (Env_Creating ''insane_fusion'')
         (say (Fixed '':snake: Do you want to create a conda environment? (y/n): '') w)"
  let ?cs = "conda_commands ''insane_fusion''"
  note acc = create_conda_env_accepts [OF assms, of w]
  from create_conda_env_loop_prefix [of ?cs e ?v] obtain k where k: "k \<le> length ?cs" "0 < k"
    and h: "history (snd (create_conda_env_loop e ?cs ?v)) = history ?v @ take k ?cs"
    and full: "fst (create_conda_env_loop e ?cs ?v) = Inr () \<longrightarrow> k = length ?cs"
    by (auto simp add: conda_commands_def)
  from k have "k = 1 \<or> k = 2" by (auto simp add: conda_commands_def)
  moreover have "quiet e \<Longrightarrow> fst (create_conda_env_loop e ?cs ?v) = Inr ()"
    by (rule create_conda_env_loop_quiet) (simp_all add: conda_commands_def)
  ultimately show ?thesis
    using acc h full by (auto simp add: conda_commands_def say_history)
qed

text \<open>
  C10. The answer is lowercased and stripped before the comparison, and commands are handed
  to the runner exactly when the normalised answer is \<open>y\<close>: then the creation command is
  run, and the activation command after it unless the runner raised on the first (it
  always follows where the function returns, and where every output is text). For every
  other answer, and at end of input, no command is run.
\<close>

theorem create_conda_env_normalises:
  "(\<forall>a. stdin_line e = Some a \<and> strip (lower a) = ''y'' \<longrightarrow>
      (history (snd (create_conda_env e w)) =
         history w @ [''conda create -n insane_fusion python=3.9 -y'', ''conda activate insane_fusion'']
       \<or> history (snd (create_conda_env e w)) =
         history w @ [''conda create -n insane_fusion python=3.9 -y''])
      \<and> (fst (create_conda_env e w) = Inr () \<or> quiet e \<longrightarrow>
           history (snd (create_conda_env e w)) =
             history w @ [''conda create -n insane_fusion python=3.9 -y'',
                          ''conda activate insane_fusion'']))
   \<and> ((\<forall>a. stdin_line e = Some a \<longrightarrow> strip (lower a) \<noteq> ''y'') \<longrightarrow>
        history (snd (create_conda_env e w)) = history w)"
proof (intro conjI allI impI)
  fix a assume "stdin_line e = Some a \<and> strip (lower a) = ''y''"
  then have a: "stdin_line e = Some a" "strip (lower a) = ''y''" by simp_all
  from create_conda_env_accepted_history [OF a, of w]
  show "history (snd (create_conda_env e w)) =
         history w @ [''conda create -n insane_fusion python=3.9 -y'', ''conda activate insane_fusion'']
       \<or> history (snd (create_conda_env e w)) =
         history w @ [''conda create -n insane_fusion python=3.9 -y'']" by blast
  assume "fst (create_conda_env e w) = Inr () \<or> quiet e"
  with create_conda_env_accepted_history [OF a, of w]
  show "history (snd (create_conda_env e w)) =
             history w @ [''conda create -n insane_fusion python=3.9 -y'',
                          ''conda activate insane_fusion'']" by blast
next
  assume no: "\<forall>a. stdin_line e = Some a \<longrightarrow> strip (lower a) \<noteq> ''y''"
  show "history (snd (create_conda_env e w)) = history w"
  proof (cases "stdin_line e")
    case None
    then show ?thesis by (simp add: create_conda_env_eof say_history)
  next
    case (Some a)
    with no show ?thesis by (simp add: create_conda_env_declines say_history)
  qed
qed

theorem create_conda_env_normalises_witness:
  "history (snd (create_conda_env (offline_env\<lparr>stdin_line := Some ''Y''\<rparr>) clean_world)) =
     [''conda create -n insane_fusion python=3.9 -y'', ''conda activate insane_fusion'']
   \<and> history (snd (create_conda_env (offline_env\<lparr>stdin_line := Some '' y ''\<rparr>) clean_world)) =
     [''conda create -n insane_fusion python=3.9 -y'', ''conda activate insane_fusion'']
   \<and> history (snd (create_conda_env (offline_env\<lparr>stdin_line := Some ''yes''\<rparr>) clean_world)) = []
   \<and> history (snd (create_conda_env (offline_env\<lparr>stdin_line := None\<rparr>) clean_world)) = []"
proof -
  have q: "quiet (offline_env\<lparr>stdin_line := s\<rparr>)" for s
    using quiet_offline by (simp add: quiet_def)
  show ?thesis
    using create_conda_env_normalises [of "offline_env\<lparr>stdin_line := Some ''Y''\<rparr>" clean_world]
      create_conda_env_normalises [of "offline_env\<lparr>stdin_line := Some '' y ''\<rparr>" clean_world]
      create_conda_env_normalises [of "offline_env\<lparr>stdin_line := Some ''yes''\<rparr>" clean_world]
      create_conda_env_normalises [of "offline_env\<lparr>stdin_line := None\<rparr>" clean_world]
    by (simp add: normalise_examples clean_world_def q)
qed

section \<open>Properties of the helper files\<close>



lemma os_remove_dir: "f p = Some Dir \<Longrightarrow> os_remove p f = Inl (IsADirectoryError p)"
  by (simp add: os_remove_def)










section \<open>Properties of the download helper\<close>

lemma model_path_eq: "model_path a = model_path b \<longleftrightarrow> a = b"
  by (simp add: model_path_def)

lemma hsay_attempts: "attempts (hsay l w) = attempts w"
  by (simp add: hsay_def)

lemma hsay_hfiles: "hfiles (hsay l w) = hfiles w"
  by (simp add: hsay_def)

lemma absent_filter_update:
  assumes "n \<notin> fst ` set ms"
  shows "filter (\<lambda>(name, url). (f(model_path n \<mapsto> v)) (model_path name) = None) ms =
         filter (\<lambda>(name, url). f (model_path name) = None) ms"
proof (intro filter_cong refl)
  fix x assume x: "x \<in> set ms"
  obtain a b where ab: "x = (a, b)" by (cases x)
  with x assms have "a \<noteq> n" by force
  with ab show "(case x of (name, url) \<Rightarrow> (f(model_path n \<mapsto> v)) (model_path name) = None) =
      (case x of (name, url) \<Rightarrow> f (model_path name) = None)"
    by (simp add: model_path_eq)
qed

lemma download_loop_attempts:
  "distinct (map fst ms) \<Longrightarrow>
   attempts (download_loop h ms w) =
     attempts w @ map (\<lambda>(name, url). (url, model_path name))
                    (filter (\<lambda>(name, url). hfiles w (model_path name) = None) ms)"
proof (induction ms arbitrary: w)
  case Nil
  then show ?case by simp
next
  case (Cons entry ms)
  obtain n u where entry: "entry = (n, u)" by (cases entry)
  from Cons.prems entry have fresh: "n \<notin> fst ` set ms" and dist: "distinct (map fst ms)"
    by auto
  show ?case
  proof (cases "hfiles w (model_path n) = None")
    case False
    then show ?thesis
      using Cons.IH [OF dist] entry by (auto simp add: hsay_attempts hsay_hfiles)
  next
    case True
    then show ?thesis
      using Cons.IH [OF dist] entry
      by (simp add: hsay_attempts hsay_hfiles Let_def absent_filter_update [OF fresh]
          del: fun_upd_apply split: fetch.splits option.splits)
  qed
qed


lemma models_distinct: "distinct (map fst models)"
  by (simp add: models_def)

lemma mkdir_models:
  assumes "\<forall>c. f ''models'' \<noteq> Some (File c)"
  obtains f' where "mkdir_exist_ok ''models'' f = Inr f'"
    and "\<And>name. f' (model_path name) = f (model_path name)"
proof (cases "f ''models''")
  case None
  then have "mkdir_exist_ok ''models'' f = Inr (f(''models'' \<mapsto> Dir))"
    by (simp add: mkdir_exist_ok_def)
  moreover have "(f(''models'' \<mapsto> Dir)) (model_path name) = f (model_path name)" for name
    by (simp add: model_path_def)
  ultimately show ?thesis by (rule that)
next
  case (Some node)
  with assms have "node = Dir" by (cases node) auto
  with Some have "mkdir_exist_ok ''models'' f = Inr f"
    by (simp add: mkdir_exist_ok_def)
  then show ?thesis by (rule that) simp
qed

lemma download_midas_models_eq:
  assumes "\<forall>c. hfiles w ''models'' \<noteq> Some (File c)"
  shows "fst (download_midas_models h w) = Inr ()"
    and "attempts (snd (download_midas_models h w)) =
      attempts w @ map (\<lambda>(name, url). (url, model_path name))
                     (filter (\<lambda>(name, url). hfiles w (model_path name) = None) models)"
proof -
  from mkdir_models [of "hfiles w", OF assms] obtain f' where mk: "mkdir_exist_ok ''models'' (hfiles w) = Inr f'"
    and same: "\<And>name. f' (model_path name) = hfiles w (model_path name)" by blast
  from mk show "fst (download_midas_models h w) = Inr ()"
    by (simp add: download_midas_models_def)
  from mk have "attempts (snd (download_midas_models h w)) =
      attempts (download_loop h models (w\<lparr>hfiles := f'\<rparr>))"
    by (simp add: download_midas_models_def)
  also have "\<dots> = attempts w @ map (\<lambda>(name, url). (url, model_path name))
                     (filter (\<lambda>(name, url). f' (model_path name) = None) models)"
    by (simp add: download_loop_attempts [OF models_distinct])
  finally show "attempts (snd (download_midas_models h w)) =
      attempts w @ map (\<lambda>(name, url). (url, model_path name))
                     (filter (\<lambda>(name, url). hfiles w (model_path name) = None) models)"
    by (simp add: same)
qed

text \<open>
  C6, as amended. When the helper script gets past its own \<^verbatim>\<open>import torch\<close> and
  \<^verbatim>\<open>models\<close> is a directory or can be made one, the script returns, and the downloads it
  attempts are those of the manifest entries whose file is not in \<^verbatim>\<open>models/\<close>, in manifest
  order and once each, whatever each download does: for every entry, no attempt targets
  its file when the file exists, and exactly one when it does not.
\<close>

theorem download_midas_models_attempts:
  assumes "torch_importable h" and "\<forall>c. hfiles w ''models'' \<noteq> Some (File c)"
  shows "fst (download_midas_py h w) = Inr ()
    \<and> attempts (snd (download_midas_py h w)) =
        attempts w @ map (\<lambda>(name, url). (url, model_path name))
                       (filter (\<lambda>(name, url). hfiles w (model_path name) = None) models)
    \<and> (\<forall>(name, url) \<in> set models.
          length (filter (\<lambda>a. snd a = model_path name)
                    (drop (length (attempts w)) (attempts (snd (download_midas_py h w))))) =
            (if hfiles w (model_path name) = None then 1 else 0))"
  using assms(1)
  by (simp add: download_midas_py_def download_midas_models_eq [OF assms(2)] models_def
      model_path_def)

theorem download_midas_models_attempts_witness:
  "attempts (snd (download_midas_py no_network half_done_script_world)) =
     [(''https://github.com/intel-isl/MiDaS/releases/download/v2_1/midas_v21-f6b98070.pt'',
       ''models/midas_v21.pt'')]
   \<and> attempts (snd (download_midas_py no_network fresh_script_world)) =
     [(''https://github.com/intel-isl/MiDaS/releases/download/v2_1/midas_v21_small-70d51b78.pt'',
       ''models/midas_v21_small.pt''),
      (''https://github.com/intel-isl/MiDaS/releases/download/v2_1/midas_v21-f6b98070.pt'',
       ''models/midas_v21.pt'')]"
  using download_midas_models_attempts [of no_network half_done_script_world]
    download_midas_models_attempts [of no_network fresh_script_world]
  by (simp add: half_done_script_world_def fresh_script_world_def models_def model_path_def
      no_network_def)

text \<open>
  C6 as stated fails: run by an interpreter without torch, the helper script stops at its
  first line and attempts no download, though neither model file exists.
\<close>

theorem download_needs_torch:
  "hfiles fresh_script_world (model_path ''midas_v21_small.pt'') = None
   \<and> hfiles fresh_script_world (model_path ''midas_v21.pt'') = None
   \<and> fst (download_midas_py no_torch fresh_script_world) = Inl (ImportError ''torch'')
   \<and> attempts (snd (download_midas_py no_torch fresh_script_world)) = []"
  by (simp add: download_midas_py_def no_torch_def fresh_script_world_def)

section \<open>Properties of the driver\<close>

lemma marks_say: "marks (say l w) = marks w @ (if landmark l then [l] else [])"
  by (simp add: say_def)

lemma firsts_say: "firsts (say l w) = firsts w"
  by (simp add: say_def)

lemma marks_run_command:
  "marks (snd (run_command e c d w)) =
     marks w @ (if landmark (Cmd_Start d) then [Cmd_Start d] else [])"
  by (cases rule: run_command_cases [of e c d w]) simp_all

lemma firsts_run_command:
  "firsts (snd (run_command e c d w)) = firsts w @ (if first_command c then [c] else [])"
  by (simp add: run_command_history)

lemma marks_conda_loop: "marks (snd (create_conda_env_loop e cs w)) = marks w"
proof (induction cs arbitrary: w)
  case Nil
  then show ?case by simp
next
  case (Cons c cs)
  obtain r w' where rc: "run_command e c (''Running: '' @ c) w = (r, w')"
    by (cases "run_command e c (''Running: '' @ c) w")
  with marks_run_command [of e c "''Running: '' @ c" w] have "marks w' = marks w" by simp
  with rc Cons.IH [of w'] show ?case by (cases r) simp_all
qed

lemma silent_gaussian_loop:
  assumes "\<forall>p\<in>set ps. \<not> landmark (Cmd_Start (''Installing '' @ p))
              \<and> \<not> first_command (''pip install '' @ p)"
  shows "marks (snd (install_gaussian_splatting_deps_loop e ps w)) = marks w
    \<and> firsts (snd (install_gaussian_splatting_deps_loop e ps w)) = firsts w"
  using assms
proof (induction ps arbitrary: w)
  case Nil
  then show ?case by simp
next
  case (Cons p ps)
  obtain r w' where rc: "run_command e (''pip install '' @ p) (''Installing '' @ p) w = (r, w')"
    by (cases "run_command e (''pip install '' @ p) (''Installing '' @ p) w")
  with marks_run_command [of e "''pip install '' @ p" "''Installing '' @ p" w]
    firsts_run_command [of e "''pip install '' @ p" "''Installing '' @ p" w] Cons.prems
  have "marks w' = marks w" "firsts w' = firsts w" by simp_all
  with rc Cons.IH [of w'] Cons.prems show ?case by (cases r) simp_all
qed

lemma silent_additional_loop:
  assumes "\<forall>p\<in>set ps. \<not> landmark (Cmd_Start (''Installing '' @ p))
              \<and> \<not> first_command (''pip install '' @ p)"
  shows "marks (snd (install_additional_packages_loop e ps w)) = marks w
    \<and> firsts (snd (install_additional_packages_loop e ps w)) = firsts w"
  using assms
proof (induction ps arbitrary: w)
  case Nil
  then show ?case by simp
next
  case (Cons p ps)
  obtain r w' where rc: "run_command e (''pip install '' @ p) (''Installing '' @ p) w = (r, w')"
    by (cases "run_command e (''pip install '' @ p) (''Installing '' @ p) w")
  with marks_run_command [of e "''pip install '' @ p" "''Installing '' @ p" w]
    firsts_run_command [of e "''pip install '' @ p" "''Installing '' @ p" w] Cons.prems
  have "marks w' = marks w" "firsts w' = firsts w" by simp_all
  with rc Cons.IH [of w'] Cons.prems show ?case by (cases r) simp_all
qed

lemma silent_midas_loop:
  assumes "\<forall>p\<in>set ps. \<not> landmark (Cmd_Start (''Installing '' @ p))
              \<and> \<not> first_command (''pip install '' @ p)"
  shows "marks (snd (install_midas_dependencies_loop e ps w)) = marks w
    \<and> firsts (snd (install_midas_dependencies_loop e ps w)) = firsts w"
  using assms
proof (induction ps arbitrary: w)
  case Nil
  then show ?case by simp
next
  case (Cons p ps)
  obtain r w' where rc: "run_command e (''pip install '' @ p) (''Installing '' @ p) w = (r, w')"
    by (cases "run_command e (''pip install '' @ p) (''Installing '' @ p) w")
  with marks_run_command [of e "''pip install '' @ p" "''Installing '' @ p" w]
    firsts_run_command [of e "''pip install '' @ p" "''Installing '' @ p" w] Cons.prems
  have "marks w' = marks w" "firsts w' = firsts w" by simp_all
  with rc Cons.IH [of w'] Cons.prems show ?case by (cases r) simp_all
qed


lemma call_snd: "snd (call func e w) = snd (func e w)"
  by (simp add: call_def split: prod.splits sum.splits)

lemma call_fst_Inl: "fst (call func e w) = Inl x \<longleftrightarrow> fst (func e w) = Inl x"
  by (auto simp add: call_def split: prod.splits sum.splits)

lemma not_first_pytorch: "\<not> first_command (pytorch_command e)"
  by (simp add: first_command_def step_commands_def pytorch_command_def)

lemma step_install_pytorch:
  "marks (snd (install_pytorch e w)) = marks w @ [Fixed '':fire: Installing PyTorch...'']"
  "firsts (snd (install_pytorch e w)) = firsts w"
  "fst (install_pytorch e w) = Inl x \<Longrightarrow> is_Exception x"
proof -
  show "marks (snd (install_pytorch e w)) = marks w @ [Fixed '':fire: Installing PyTorch...'']"
    by (cases "torch e = Imported True")
       (simp_all add: install_pytorch_present install_pytorch_absent marks_run_command marks_say
          banner_def)
  show "firsts (snd (install_pytorch e w)) = firsts w"
    by (cases "torch e = Imported True")
       (simp_all add: install_pytorch_present install_pytorch_absent run_command_history
          say_history not_first_pytorch)
  show "fst (install_pytorch e w) = Inl x \<Longrightarrow> is_Exception x"
    by (cases "torch e = Imported True")
       (simp_all add: install_pytorch_present install_pytorch_absent run_command_raises)
qed

lemma step_install_opencv:
  "marks (snd (install_opencv e w)) = marks w @ [Cmd_Start ''Installing OpenCV'']"
  "firsts (snd (install_opencv e w)) =
     firsts w @ [''pip install opencv-python opencv-contrib-python'']"
  "fst (install_opencv e w) = Inl x \<Longrightarrow> is_Exception x"
  by (simp_all add: install_opencv_def marks_run_command run_command_history run_command_raises
      first_command_def step_commands_def)

lemma step_install_midas_dependencies:
  "marks (snd (install_midas_dependencies e w)) = marks w @ [Cmd_Start ''Installing timm'']"
  "firsts (snd (install_midas_dependencies e w)) = firsts w @ [''pip install timm'']"
  "fst (install_midas_dependencies e w) = Inl x \<Longrightarrow> is_Exception x"
proof -
  have rest: "marks (snd (install_midas_dependencies_loop e
        [''einops'', ''scipy'', ''matplotlib'', ''pillow'', ''transforms3d'', ''open3d''] v)) = marks v
      \<and> firsts (snd (install_midas_dependencies_loop e
        [''einops'', ''scipy'', ''matplotlib'', ''pillow'', ''transforms3d'', ''open3d''] v)) = firsts v"
    for v
    by (rule silent_midas_loop) (simp add: first_command_def step_commands_def)
  obtain r w1 where rc: "run_command e ''pip install timm'' ''Installing timm'' w = (r, w1)"
    by (cases "run_command e ''pip install timm'' ''Installing timm'' w")
  with marks_run_command [of e "''pip install timm''" "''Installing timm''" w]
    firsts_run_command [of e "''pip install timm''" "''Installing timm''" w]
  have w1: "marks w1 = marks w @ [Cmd_Start ''Installing timm'']"
    "firsts w1 = firsts w @ [''pip install timm'']"
    by (simp_all add: first_command_def step_commands_def)
  from rc w1 rest [of w1]
  show "marks (snd (install_midas_dependencies e w)) = marks w @ [Cmd_Start ''Installing timm'']"
    "firsts (snd (install_midas_dependencies e w)) = firsts w @ [''pip install timm'']"
    by (cases r; simp add: install_midas_dependencies_def midas_packages_def)+
  show "fst (install_midas_dependencies e w) = Inl x \<Longrightarrow> is_Exception x"
    using midas_loop_raises [of e midas_packages w x]
    by (auto simp add: install_midas_dependencies_def)
qed

lemma step_install_additional_packages:
  "marks (snd (install_additional_packages e w)) = marks w @ [Cmd_Start ''Installing ffmpeg-python'']"
  "firsts (snd (install_additional_packages e w)) = firsts w @ [''pip install ffmpeg-python'']"
  "fst (install_additional_packages e w) = Inl x \<Longrightarrow> is_Exception x"
proof -
  have rest: "marks (snd (install_additional_packages_loop e
        [''imageio-ffmpeg'', ''scikit-image'', ''scikit-learn'', ''trimesh'', ''pymeshlab''] v)) = marks v
      \<and> firsts (snd (install_additional_packages_loop e
        [''imageio-ffmpeg'', ''scikit-image'', ''scikit-learn'', ''trimesh'', ''pymeshlab''] v)) = firsts v"
    for v
    by (rule silent_additional_loop) (simp add: first_command_def step_commands_def)
  obtain r w1 where rc:
    "run_command e ''pip install ffmpeg-python'' ''Installing ffmpeg-python'' w = (r, w1)"
    by (cases "run_command e ''pip install ffmpeg-python'' ''Installing ffmpeg-python'' w")
  with marks_run_command [of e "''pip install ffmpeg-python''" "''Installing ffmpeg-python''" w]
    firsts_run_command [of e "''pip install ffmpeg-python''" "''Installing ffmpeg-python''" w]
  have w1: "marks w1 = marks w @ [Cmd_Start ''Installing ffmpeg-python'']"
    "firsts w1 = firsts w @ [''pip install ffmpeg-python'']"
    by (simp_all add: first_command_def step_commands_def)
  from rc w1 rest [of w1]
  show "marks (snd (install_additional_packages e w)) =
      marks w @ [Cmd_Start ''Installing ffmpeg-python'']"
    "firsts (snd (install_additional_packages e w)) = firsts w @ [''pip install ffmpeg-python'']"
    by (cases r; simp add: install_additional_packages_def additional_packages_def)+
  show "fst (install_additional_packages e w) = Inl x \<Longrightarrow> is_Exception x"
    using additional_loop_raises [of e additional_packages w x]
    by (auto simp add: install_additional_packages_def)
qed

lemma basic_deps_loop:
  "marks (snd (install_gaussian_splatting_deps_loop e basic_deps w)) = marks w"
  "firsts (snd (install_gaussian_splatting_deps_loop e basic_deps w)) =
     firsts w @ [''pip install plyfile'']"
proof -
  have rest: "marks (snd (install_gaussian_splatting_deps_loop e
        [''tqdm'', ''numpy'', ''scipy'', ''matplotlib'', ''imageio'', ''configargparse''] v)) = marks v
      \<and> firsts (snd (install_gaussian_splatting_deps_loop e
        [''tqdm'', ''numpy'', ''scipy'', ''matplotlib'', ''imageio'', ''configargparse''] v)) = firsts v"
    for v
    by (rule silent_gaussian_loop) (simp add: first_command_def step_commands_def)
  obtain r w1 where rc: "run_command e ''pip install plyfile'' ''Installing plyfile'' w = (r, w1)"
    by (cases "run_command e ''pip install plyfile'' ''Installing plyfile'' w")
  with marks_run_command [of e "''pip install plyfile''" "''Installing plyfile''" w]
    firsts_run_command [of e "''pip install plyfile''" "''Installing plyfile''" w]
  have w1: "marks w1 = marks w" "firsts w1 = firsts w @ [''pip install plyfile'']"
    by (simp_all add: first_command_def step_commands_def)
  from rc w1 rest [of w1]
  show "marks (snd (install_gaussian_splatting_deps_loop e basic_deps w)) = marks w"
    "firsts (snd (install_gaussian_splatting_deps_loop e basic_deps w)) =
       firsts w @ [''pip install plyfile'']"
    by (cases r; simp add: basic_deps_def)+
qed

lemma step_install_gaussian_splatting_deps:
  "marks (snd (install_gaussian_splatting_deps e w)) =
     marks w @ [Fixed '':clapper: Installing Gaussian Splatting dependencies...'']"
  "firsts (snd (install_gaussian_splatting_deps e w)) = firsts w @ [''pip install plyfile'']"
  "fst (install_gaussian_splatting_deps e w) = Inl x \<Longrightarrow> is_Exception x"
proof -
  let ?w0 = "say (Fixed '':clapper: Installing Gaussian Splatting dependencies...'') w"
  obtain r w1 where l: "install_gaussian_splatting_deps_loop e basic_deps ?w0 = (r, w1)"
    by (cases "install_gaussian_splatting_deps_loop e basic_deps ?w0")
  with basic_deps_loop [of e ?w0]
  have w1: "marks w1 = marks w @ [Fixed '':clapper: Installing Gaussian Splatting dependencies...'']"
    "firsts w1 = firsts w @ [''pip install plyfile'']"
    by (simp_all add: marks_say firsts_say banner_def)
  obtain r2 w2 where a: "run_command e ''sudo apt-get update && sudo apt-get install -y colmap''
      ''Installing COLMAP (Linux)'' w1 = (r2, w2)"
    by (cases "run_command e ''sudo apt-get update && sudo apt-get install -y colmap''
      ''Installing COLMAP (Linux)'' w1")
  with marks_run_command [of e "''sudo apt-get update && sudo apt-get install -y colmap''"
      "''Installing COLMAP (Linux)''" w1]
    firsts_run_command [of e "''sudo apt-get update && sudo apt-get install -y colmap''"
      "''Installing COLMAP (Linux)''" w1]
    run_command_raises [of e "''sudo apt-get update && sudo apt-get install -y colmap''"
      "''Installing COLMAP (Linux)''" w1]
  have w2: "marks w2 = marks w1" "firsts w2 = firsts w1" "\<And>y. r2 = Inl y \<Longrightarrow> is_Exception y"
    by (simp_all add: first_command_def step_commands_def)
  obtain r3 w3 where b: "run_command e ''brew install colmap'' ''Installing COLMAP (macOS)'' w1 = (r3, w3)"
    by (cases "run_command e ''brew install colmap'' ''Installing COLMAP (macOS)'' w1")
  with marks_run_command [of e "''brew install colmap''" "''Installing COLMAP (macOS)''" w1]
    firsts_run_command [of e "''brew install colmap''" "''Installing COLMAP (macOS)''" w1]
    run_command_raises [of e "''brew install colmap''" "''Installing COLMAP (macOS)''" w1]
  have w3: "marks w3 = marks w1" "firsts w3 = firsts w1" "\<And>y. r3 = Inl y \<Longrightarrow> is_Exception y"
    by (simp_all add: first_command_def step_commands_def)
  have r: "\<And>y. r = Inl y \<Longrightarrow> is_Exception y"
    using gaussian_loop_raises [of e basic_deps ?w0] l by auto
  show "marks (snd (install_gaussian_splatting_deps e w)) =
     marks w @ [Fixed '':clapper: Installing Gaussian Splatting dependencies...'']"
    using l a b w1 w2 w3
    by (cases r; cases r2; cases r3)
       (simp_all add: install_gaussian_splatting_deps_def Let_def marks_say banner_def)
  show "firsts (snd (install_gaussian_splatting_deps e w)) = firsts w @ [''pip install plyfile'']"
    using l a b w1 w2 w3
    by (cases r; cases r2; cases r3)
       (simp_all add: install_gaussian_splatting_deps_def Let_def firsts_say)
  show "fst (install_gaussian_splatting_deps e w) = Inl x \<Longrightarrow> is_Exception x"
    using l a b r w2(3) w3(3)
    by (cases r; cases r2; cases r3)
       (auto simp add: install_gaussian_splatting_deps_def Let_def split: if_splits)
qed

lemma helper_commands_silent:
  "\<not> first_command ''python download_midas.py''" "\<not> first_command ''python test_installation.py''"
  "\<not> landmark (Cmd_Start ''Downloading MiDaS models'')"
  "\<not> landmark (Cmd_Start ''Running installation tests'')"
  by (simp_all add: first_command_def step_commands_def)

lemma mkdir_raises: "mkdir_exist_ok p f = Inl x \<Longrightarrow> is_Exception x"
  by (auto simp add: mkdir_exist_ok_def split: option.splits node.splits)

lemma open_write_raises: "open_write p c f = Inl x \<Longrightarrow> is_Exception x"
  by (auto simp add: open_write_def split: option.splits node.splits)

lemma os_remove_raises: "os_remove p f = Inl x \<Longrightarrow> is_Exception x"
  by (auto simp add: os_remove_def split: option.splits node.splits)

lemma step_setup_midas_models:
  "marks (snd (setup_midas_models e w)) = marks w @ [Fixed '':inbox_tray: Setting up MiDaS models...'']
   \<and> firsts (snd (setup_midas_models e w)) = firsts w
   \<and> (\<forall>x. fst (setup_midas_models e w) = Inl x \<longrightarrow> is_Exception x)"
proof -
  let ?w1 = "say (Fixed '':inbox_tray: Setting up MiDaS models...'') w"
  have run: "marks (snd (run_command e ''python download_midas.py'' ''Downloading MiDaS models'' v)) = marks v
      \<and> firsts (snd (run_command e ''python download_midas.py'' ''Downloading MiDaS models'' v)) = firsts v
      \<and> (\<forall>y. fst (run_command e ''python download_midas.py'' ''Downloading MiDaS models'' v) = Inl y
            \<longrightarrow> is_Exception y)" for v
    using run_command_raises [of e "''python download_midas.py''" "''Downloading MiDaS models''" v]
    by (simp add: marks_run_command firsts_run_command helper_commands_silent)
  have m1: "marks ?w1 = marks w @ [Fixed '':inbox_tray: Setting up MiDaS models...'']"
    "firsts ?w1 = firsts w"
    by (simp_all add: marks_say firsts_say banner_def)
  have tail: "marks (snd (setup_midas_models e w)) = marks w @ [Fixed '':inbox_tray: Setting up MiDaS models...'']
      \<and> firsts (snd (setup_midas_models e w)) = firsts w
      \<and> (\<forall>x. fst (setup_midas_models e w) = Inl x \<longrightarrow> is_Exception x)"
    if mk: "mkdir_exist_ok ''models'' (files w) = Inr f1"
      and f2: "open_write ''download_midas.py'' Midas_Script f1 = Inr f2" for f1 f2
  proof -
    obtain r w3 where rc: "run_command e ''python download_midas.py'' ''Downloading MiDaS models'' (?w1\<lparr>files := f2\<rparr>) = (r, w3)"
      by (cases "run_command e ''python download_midas.py'' ''Downloading MiDaS models'' (?w1\<lparr>files := f2\<rparr>)")
    with run [of "?w1\<lparr>files := f2\<rparr>"] m1
    have w3: "marks w3 = marks w @ [Fixed '':inbox_tray: Setting up MiDaS models...'']"
      "firsts w3 = firsts w" "\<And>y. r = Inl y \<Longrightarrow> is_Exception y"
      by simp_all
    show ?thesis
    proof (cases r)
      case (Inl y)
      with mk f2 rc w3 show ?thesis
        by (simp add: setup_midas_models_def Let_def say_files)
    next
      case (Inr ok)
      with mk f2 rc w3 show ?thesis
        by (cases "os_remove ''download_midas.py'' (files w3)")
           (auto simp add: setup_midas_models_def Let_def say_files dest: os_remove_raises)
    qed
  qed
  show ?thesis
  proof (cases "mkdir_exist_ok ''models'' (files w)")
    case (Inl y)
    with m1 mkdir_raises [OF Inl] show ?thesis
      by (simp add: setup_midas_models_def Let_def say_files)
  next
    case (Inr f1)
    show ?thesis
    proof (cases "open_write ''download_midas.py'' Midas_Script f1")
      case (Inl y)
      with Inr m1 open_write_raises [OF Inl] show ?thesis
        by (simp add: setup_midas_models_def Let_def say_files)
    next
      case f2: (Inr f2)
      from tail [OF Inr f2] show ?thesis .
    qed
  qed
qed

lemma step_verify_installation:
  "marks (snd (verify_installation e w)) = marks w @ [Fixed '':mag: Verifying installation...'']
   \<and> firsts (snd (verify_installation e w)) = firsts w
   \<and> (\<forall>x. fst (verify_installation e w) = Inl x \<longrightarrow> is_Exception x)"
proof -
  let ?w1 = "say (Fixed '':mag: Verifying installation...'') w"
  have run: "marks (snd (run_command e ''python test_installation.py'' ''Running installation tests'' v)) = marks v
      \<and> firsts (snd (run_command e ''python test_installation.py'' ''Running installation tests'' v)) = firsts v
      \<and> (\<forall>y. fst (run_command e ''python test_installation.py'' ''Running installation tests'' v) = Inl y
            \<longrightarrow> is_Exception y)" for v
    using run_command_raises [of e "''python test_installation.py''" "''Running installation tests''" v]
    by (simp add: marks_run_command firsts_run_command helper_commands_silent)
  have m1: "marks ?w1 = marks w @ [Fixed '':mag: Verifying installation...'']"
    "firsts ?w1 = firsts w"
    by (simp_all add: marks_say firsts_say banner_def)
  have tail: "marks (snd (verify_installation e w)) = marks w @ [Fixed '':mag: Verifying installation...'']
      \<and> firsts (snd (verify_installation e w)) = firsts w
      \<and> (\<forall>x. fst (verify_installation e w) = Inl x \<longrightarrow> is_Exception x)"
    if mk: "True"
      and f2: "open_write ''test_installation.py'' Test_Script (files w) = Inr f2" for f2
  proof -
    obtain r w3 where rc: "run_command e ''python test_installation.py'' ''Running installation tests'' (?w1\<lparr>files := f2\<rparr>) = (r, w3)"
      by (cases "run_command e ''python test_installation.py'' ''Running installation tests'' (?w1\<lparr>files := f2\<rparr>)")
    with run [of "?w1\<lparr>files := f2\<rparr>"] m1
    have w3: "marks w3 = marks w @ [Fixed '':mag: Verifying installation...'']"
      "firsts w3 = firsts w" "\<And>y. r = Inl y \<Longrightarrow> is_Exception y"
      by simp_all
    show ?thesis
    proof (cases r)
      case (Inl y)
      with mk f2 rc w3 show ?thesis
        by (simp add: verify_installation_def Let_def say_files)
    next
      case (Inr ok)
      with mk f2 rc w3 show ?thesis
        by (cases "os_remove ''test_installation.py'' (files w3)")
           (auto simp add: verify_installation_def Let_def say_files dest: os_remove_raises)
    qed
  qed
  show ?thesis
  proof (cases "open_write ''test_installation.py'' Test_Script (files w)")
    case (Inl y)
    with m1 open_write_raises [OF Inl] show ?thesis
      by (simp add: verify_installation_def Let_def say_files)
  next
    case f2: (Inr f2)
    from tail [OF TrueI f2] show ?thesis .
  qed
qed

lemma run_steps_Cons_props:
  assumes only_Exception: "\<And>v x. fst (f e v) = Inl x \<Longrightarrow> is_Exception x"
    and line: "\<And>v. marks (snd (f e v)) = marks v @ [m]"
    and cmd: "\<And>v. firsts (snd (f e v)) = firsts v @ cs"
    and rest: "\<And>v. fst (run_steps e ss v) = Inr ()
        \<and> snd (run_steps e ss v) = foldl (\<lambda>u (d, f). attempt e d f u) v ss
        \<and> marks (snd (run_steps e ss v)) = marks v @ ms
        \<and> firsts (snd (run_steps e ss v)) = firsts v @ cs'"
  shows "fst (run_steps e ((d, f) # ss) w) = Inr ()
    \<and> snd (run_steps e ((d, f) # ss) w) = foldl (\<lambda>u (d, f). attempt e d f u) w ((d, f) # ss)
    \<and> marks (snd (run_steps e ((d, f) # ss) w)) = marks w @ Step_Header d # m # ms
    \<and> firsts (snd (run_steps e ((d, f) # ss) w)) = firsts w @ cs @ cs'"
proof -
  obtain r w' where step: "f e (say (Step_Header d) w) = (r, w')"
    by (cases "f e (say (Step_Header d) w)")
  have "marks (snd (f e (say (Step_Header d) w))) = marks (say (Step_Header d) w) @ [m]"
    "firsts (snd (f e (say (Step_Header d) w))) = firsts (say (Step_Header d) w) @ cs"
    by (rule line, rule cmd)
  with step have w': "marks w' = marks w @ [Step_Header d, m]" "firsts w' = firsts w @ cs"
    by (simp_all add: marks_say firsts_say)
  have next_world: "run_steps e ((d, f) # ss) w = run_steps e ss (attempt e d f w)"
  proof (cases r)
    case (Inr u)
    with step show ?thesis by (simp add: attempt_def)
  next
    case (Inl x)
    with step have "fst (f e (say (Step_Header d) w)) = Inl x" by simp
    then have "is_Exception x" by (rule only_Exception)
    with Inl step show ?thesis by (simp add: attempt_def)
  qed
  have "marks (attempt e d f w) = marks w @ [Step_Header d, m]
      \<and> firsts (attempt e d f w) = firsts w @ cs"
    using step w' by (cases r) (simp_all add: attempt_def marks_say firsts_say)
  then have a: "marks (attempt e d f w) = marks w @ [Step_Header d, m]"
    "firsts (attempt e d f w) = firsts w @ cs"
    by simp_all
  from rest [of "attempt e d f w"]
  have r1: "fst (run_steps e ss (attempt e d f w)) = Inr ()"
    and r2: "snd (run_steps e ss (attempt e d f w)) =
        foldl (\<lambda>u (d, f). attempt e d f u) (attempt e d f w) ss"
    and r3: "marks (snd (run_steps e ss (attempt e d f w))) = marks (attempt e d f w) @ ms"
    and r4: "firsts (snd (run_steps e ss (attempt e d f w))) = firsts (attempt e d f w) @ cs'"
    by blast+
  show ?thesis
    unfolding next_world
  proof (intro conjI)
    show "fst (run_steps e ss (attempt e d f w)) = Inr ()" by (rule r1)
    show "snd (run_steps e ss (attempt e d f w)) =
        foldl (\<lambda>u (d, f). attempt e d f u) w ((d, f) # ss)"
      using r2 by simp
    show "marks (snd (run_steps e ss (attempt e d f w))) = marks w @ Step_Header d # m # ms"
      unfolding r3 a by simp
    show "firsts (snd (run_steps e ss (attempt e d f w))) = firsts w @ cs @ cs'"
      unfolding r4 a by simp
  qed
qed

lemma run_steps_Nil_props:
  "fst (run_steps e [] v) = Inr ()
   \<and> snd (run_steps e [] v) = foldl (\<lambda>u (d, f). attempt e d f u) v []
   \<and> marks (snd (run_steps e [] v)) = marks v @ []
   \<and> firsts (snd (run_steps e [] v)) = firsts v @ []"
  by simp

lemma run_steps_steps:
  "fst (run_steps e steps w) = Inr ()
   \<and> snd (run_steps e steps w) = foldl (\<lambda>u (d, f). attempt e d f u) w steps
   \<and> marks (snd (run_steps e steps w)) = marks w @ step_landmarks
   \<and> firsts (snd (run_steps e steps w)) = firsts w @ [] @
       [''pip install opencv-python opencv-contrib-python''] @ [''pip install timm'']
       @ [''pip install plyfile''] @ [''pip install ffmpeg-python''] @ [] @ [] @ []"
  unfolding steps_def step_landmarks_def
  apply (rule run_steps_Cons_props)
     apply (simp add: call_fst_Inl step_install_pytorch)
    apply (simp add: call_snd step_install_pytorch)
   apply (simp add: call_snd step_install_pytorch)
  apply (rule run_steps_Cons_props)
     apply (simp add: call_fst_Inl step_install_opencv)
    apply (simp add: call_snd step_install_opencv)
   apply (simp add: call_snd step_install_opencv)
  apply (rule run_steps_Cons_props)
     apply (simp add: call_fst_Inl step_install_midas_dependencies)
    apply (simp add: call_snd step_install_midas_dependencies)
   apply (simp add: call_snd step_install_midas_dependencies)
  apply (rule run_steps_Cons_props)
     apply (simp add: call_fst_Inl step_install_gaussian_splatting_deps)
    apply (simp add: call_snd step_install_gaussian_splatting_deps)
   apply (simp add: call_snd step_install_gaussian_splatting_deps)
  apply (rule run_steps_Cons_props)
     apply (simp add: call_fst_Inl step_install_additional_packages)
    apply (simp add: call_snd step_install_additional_packages)
   apply (simp add: call_snd step_install_additional_packages)
  apply (rule run_steps_Cons_props)
     apply (simp add: call_fst_Inl step_setup_midas_models)
    apply (simp add: call_snd step_setup_midas_models)
   apply (simp add: call_snd step_setup_midas_models)
  apply (rule run_steps_Cons_props)
     apply (simp add: call_fst_Inl step_verify_installation)
    apply (simp add: call_snd step_verify_installation)
   apply (simp add: call_snd step_verify_installation)
  apply (rule run_steps_Nil_props)
  done

lemma run_steps_props:
  "fst (run_steps e steps w) = Inr ()"
  "snd (run_steps e steps w) = foldl (\<lambda>u (d, f). attempt e d f u) w steps"
  "marks (snd (run_steps e steps w)) = marks w @ step_landmarks"
  "firsts (snd (run_steps e steps w)) = firsts w @ step_commands"
proof -
  note rs = run_steps_steps [of e w]
  show "fst (run_steps e steps w) = Inr ()"
    by (rule rs [THEN conjunct1])
  show "snd (run_steps e steps w) = foldl (\<lambda>u (d, f). attempt e d f u) w steps"
    by (rule rs [THEN conjunct2, THEN conjunct1])
  show "marks (snd (run_steps e steps w)) = marks w @ step_landmarks"
    by (rule rs [THEN conjunct2, THEN conjunct2, THEN conjunct1])
  have "firsts (snd (run_steps e steps w)) = firsts w @ [] @
       [''pip install opencv-python opencv-contrib-python''] @ [''pip install timm'']
       @ [''pip install plyfile''] @ [''pip install ffmpeg-python''] @ [] @ [] @ []"
    by (rule rs [THEN conjunct2, THEN conjunct2, THEN conjunct2])
  then show "firsts (snd (run_steps e steps w)) = firsts w @ step_commands"
    by (simp add: step_commands_def)
qed

lemma conda_commands_silent:
  "\<not> first_command ''conda create -n insane_fusion python=3.9 -y''"
  "\<not> first_command ''conda activate insane_fusion''"
  by (simp_all add: first_command_def step_commands_def)

lemma firsts_conda_loop:
  "firsts (snd (create_conda_env_loop e (conda_commands ''insane_fusion'') w)) = firsts w"
proof -
  from create_conda_env_loop_prefix [of "conda_commands ''insane_fusion''" e w]
  obtain k where "history (snd (create_conda_env_loop e (conda_commands ''insane_fusion'') w)) =
      history w @ take k (conda_commands ''insane_fusion'')" by blast
  moreover have "filter first_command (take k (conda_commands ''insane_fusion'')) = []"
    using conda_commands_silent
    by (cases k; cases "k - 1") (simp_all add: conda_commands_def)
  ultimately show ?thesis by simp
qed

lemma create_conda_env_props:
  "marks (snd (create_conda_env e w)) =
     marks w @ [Fixed '':snake: Do you want to create a conda environment? (y/n): '']"
  "firsts (snd (create_conda_env e w)) = firsts w"
  "fst (create_conda_env e w) = Inl x \<Longrightarrow> is_Exception x"
proof -
  let ?w1 = "say (Fixed '':snake: Do you want to create a conda environment? (y/n): '') w"
  let ?w2 = "say (Env_Creating ''insane_fusion'') ?w1"
  obtain r w3 where l: "create_conda_env_loop e (conda_commands ''insane_fusion'') ?w2 = (r, w3)"
    by (cases "create_conda_env_loop e (conda_commands ''insane_fusion'') ?w2")
  with marks_conda_loop [of e "conda_commands ''insane_fusion''" ?w2] firsts_conda_loop [of e ?w2]
    create_conda_env_loop_raises [of e "conda_commands ''insane_fusion''" ?w2]
  have w3: "marks w3 = marks w @ [Fixed '':snake: Do you want to create a conda environment? (y/n): '']"
    "firsts w3 = firsts w" "\<And>y. r = Inl y \<Longrightarrow> is_Exception y"
    by (simp_all add: marks_say firsts_say)
  show "marks (snd (create_conda_env e w)) =
     marks w @ [Fixed '':snake: Do you want to create a conda environment? (y/n): '']"
    using l w3
    by (cases "stdin_line e"; cases r)
       (simp_all add: create_conda_env_def Let_def marks_say)
  show "firsts (snd (create_conda_env e w)) = firsts w"
    using l w3
    by (cases "stdin_line e"; cases r)
       (simp_all add: create_conda_env_def Let_def firsts_say)
  show "fst (create_conda_env e w) = Inl x \<Longrightarrow> is_Exception x"
    using l w3
    by (cases "stdin_line e"; cases r)
       (auto simp add: create_conda_env_def Let_def split: if_splits)
qed

lemma create_conda_env_returns:
  assumes "stdin_line e = Some a" and "strip (lower a) \<noteq> ''y'' \<or> quiet e"
  shows "fst (create_conda_env e w) = Inr ()"
proof (cases "strip (lower a) = ''y''")
  case False
  with assms(1) show ?thesis by (simp add: create_conda_env_declines)
next
  case True
  with assms(2) have "quiet e" by simp
  then have "fst (create_conda_env_loop e (conda_commands ''insane_fusion'')
       (say (Env_Creating ''insane_fusion'')
         (say (Fixed '':snake: Do you want to create a conda environment? (y/n): '') w))) = Inr ()"
    by (rule create_conda_env_loop_quiet) (simp add: conda_commands_def)
  with create_conda_env_accepts [OF assms(1) True, of w] show ?thesis by simp
qed

lemma rule_not_landmark: "\<not> landmark (Fixed (replicate 50 (CHR ''='')))"
  by code_simp

lemma title_not_landmark: "\<not> landmark (Fixed '':fire: INSANE FUSION - Real AI Setup'')"
  by (simp add: banner_def)

lemma check_python_version_eq:
  assumes "version_info e = (major, minor, micro)"
  shows "check_python_version e w =
     (if major < 3 \<or> (major = 3 \<and> minor < 8)
      then (False, say (Version_Error (sys_version e)) w)
      else (True, say (Version_Ok major minor micro) w))"
  using assms by (simp add: check_python_version_def)

lemma main_too_old:
  assumes "version_info e = (major, minor, micro)" and "major < 3 \<or> (major = 3 \<and> minor < 8)"
  shows "main e w =
     (Inl (SystemExit 1),
      w\<lparr>console := console w @ [Fixed '':fire: INSANE FUSION - Real AI Setup'',
           Fixed (replicate 50 (CHR ''='')), Version_Error (sys_version e)]\<rparr>)"
  using assms(2) by (simp add: main_def Let_def check_python_version_eq [OF assms(1)] say_def)

text \<open>The world in which \<open>main\<close> calls \<open>create_conda_env\<close> once the check has passed.\<close>

lemma main_supported:
  assumes "version_info e = (major, minor, micro)" and "\<not> (major < 3 \<or> (major = 3 \<and> minor < 8))"
    and "v = say (Version_Ok major minor micro)
      (say (Fixed (replicate 50 (CHR ''=''))) (say (Fixed '':fire: INSANE FUSION - Real AI Setup'') w))"
  shows "fst (main e w) = fst (create_conda_env e v)"
    and "fst (main e w) = Inr () \<Longrightarrow>
      marks (snd (main e w)) =
        marks w @ [Version_Ok major minor micro,
                   Fixed '':snake: Do you want to create a conda environment? (y/n): '']
        @ step_landmarks @ [banner]
      \<and> firsts (snd (main e w)) = firsts w @ step_commands
      \<and> snd (main e w) =
          (foldl (\<lambda>u (d, f). attempt e d f u) (snd (create_conda_env e v)) steps)
          \<lparr>console := console (foldl (\<lambda>u (d, f). attempt e d f u) (snd (create_conda_env e v)) steps)
                        @ closing_lines\<rparr>"
    and "fst (main e w) = Inl x \<Longrightarrow>
      marks (snd (main e w)) =
        marks w @ [Version_Ok major minor micro,
                   Fixed '':snake: Do you want to create a conda environment? (y/n): '']
      \<and> firsts (snd (main e w)) = firsts w \<and> is_Exception x"
proof -
  have m3: "marks v = marks w @ [Version_Ok major minor micro]" "firsts v = firsts w"
    using rule_not_landmark title_not_landmark
    by (simp_all add: assms(3) marks_say firsts_say del: landmark.simps(4))
  obtain r w4 where c: "create_conda_env e v = (r, w4)"
    by (cases "create_conda_env e v")
  with create_conda_env_props [of e v] m3
  have w4: "marks w4 = marks w @ [Version_Ok major minor micro,
                   Fixed '':snake: Do you want to create a conda environment? (y/n): '']"
    "firsts w4 = firsts w" "\<And>y. r = Inl y \<Longrightarrow> is_Exception y"
    by simp_all
  define w5 where "w5 = snd (run_steps e steps w4)"
  have r: "run_steps e steps w4 = (Inr (), w5)"
    using run_steps_props(1) [of e w4] by (cases "run_steps e steps w4") (simp add: w5_def)
  have w5: "marks w5 = marks w4 @ step_landmarks" "firsts w5 = firsts w4 @ step_commands"
    "w5 = foldl (\<lambda>u (d, f). attempt e d f u) w4 steps"
    unfolding w5_def by (rule run_steps_props)+
  have closing: "filter landmark closing_lines = [banner]"
    by (simp add: closing_lines_def banner_def)
  have chk: "check_python_version e
      (say (Fixed (replicate 50 (CHR ''=''))) (say (Fixed '':fire: INSANE FUSION - Real AI Setup'') w)) =
      (True, v)"
    unfolding check_python_version_eq [OF assms(1)] assms(3) using assms(2) by (rule if_not_P)
  have eq: "main e w =
      (case r of Inl x \<Rightarrow> (Inl x, w4)
       | Inr u \<Rightarrow> (Inr (), w5\<lparr>console := console w5 @ closing_lines\<rparr>))"
    using c r by (simp add: main_def Let_def chk split: sum.splits)
  show "fst (main e w) = fst (create_conda_env e v)"
    using c by (cases r) (simp_all add: eq)
  show "marks (snd (main e w)) =
        marks w @ [Version_Ok major minor micro,
                   Fixed '':snake: Do you want to create a conda environment? (y/n): '']
        @ step_landmarks @ [banner]
      \<and> firsts (snd (main e w)) = firsts w @ step_commands
      \<and> snd (main e w) =
          (foldl (\<lambda>u (d, f). attempt e d f u) (snd (create_conda_env e v)) steps)
          \<lparr>console := console (foldl (\<lambda>u (d, f). attempt e d f u) (snd (create_conda_env e v)) steps)
                        @ closing_lines\<rparr>"
    if "fst (main e w) = Inr ()"
  proof (cases r)
    case (Inl y)
    with that show ?thesis by (simp add: eq)
  next
    case (Inr u)
    have "marks (w5\<lparr>console := console w5 @ closing_lines\<rparr>) = marks w5 @ [banner]"
      "firsts (w5\<lparr>console := console w5 @ closing_lines\<rparr>) = firsts w5"
      using closing by simp_all
    with Inr c show ?thesis
      unfolding eq w5(1,2) w4(1,2) by (simp add: w5(3))
  qed
  show "marks (snd (main e w)) =
        marks w @ [Version_Ok major minor micro,
                   Fixed '':snake: Do you want to create a conda environment? (y/n): '']
      \<and> firsts (snd (main e w)) = firsts w \<and> is_Exception x"
    if "fst (main e w) = Inl x"
    using that w4 by (cases r) (simp_all add: eq)
qed





lemma garbled_fields:
  "version_info garbled_env = (3, 10, 4)" "platform_system garbled_env = ''Linux''"
  "stdin_line garbled_env = Some ''n''" "torch garbled_env = Import_Fails ''No module named torch''"
  by (simp_all add: garbled_env_def offline_env_def)

lemma garbled_attempts:
  "attempt garbled_env ''Installing PyTorch'' (call install_pytorch) w =
     \<lparr>files = files w,
      console = console w @ [Step_Header ''Installing PyTorch'', Fixed '':fire: Installing PyTorch...'',
        Cmd_Start ''Installing PyTorch'',
        Step_Failed ''Installing PyTorch'' (UnicodeDecodeError ''invalid start byte'')],
      history = history w @ [''pip install torch torchvision torchaudio'']\<rparr>"
  "attempt garbled_env ''Installing OpenCV'' (call install_opencv) w =
     \<lparr>files = files w,
      console = console w @ [Step_Header ''Installing OpenCV'', Cmd_Start ''Installing OpenCV'',
        Step_Failed ''Installing OpenCV'' (UnicodeDecodeError ''invalid start byte'')],
      history = history w @ [''pip install opencv-python opencv-contrib-python'']\<rparr>"
  "attempt garbled_env ''Installing MiDaS dependencies'' (call install_midas_dependencies) w =
     \<lparr>files = files w,
      console = console w @ [Step_Header ''Installing MiDaS dependencies'',
        Cmd_Start ''Installing timm'',
        Step_Failed ''Installing MiDaS dependencies'' (UnicodeDecodeError ''invalid start byte'')],
      history = history w @ [''pip install timm'']\<rparr>"
  "attempt garbled_env ''Installing Gaussian Splatting dependencies''
       (call install_gaussian_splatting_deps) w =
     \<lparr>files = files w,
      console = console w @ [Step_Header ''Installing Gaussian Splatting dependencies'',
        Fixed '':clapper: Installing Gaussian Splatting dependencies...'',
        Cmd_Start ''Installing plyfile'',
        Step_Failed ''Installing Gaussian Splatting dependencies''
          (UnicodeDecodeError ''invalid start byte'')],
      history = history w @ [''pip install plyfile'']\<rparr>"
  "attempt garbled_env ''Installing additional packages'' (call install_additional_packages) w =
     \<lparr>files = files w,
      console = console w @ [Step_Header ''Installing additional packages'',
        Cmd_Start ''Installing ffmpeg-python'',
        Step_Failed ''Installing additional packages'' (UnicodeDecodeError ''invalid start byte'')],
      history = history w @ [''pip install ffmpeg-python'']\<rparr>"
  by (simp_all add: attempt_def call_def install_pytorch_def install_opencv_def
      install_midas_dependencies_def midas_packages_def install_gaussian_splatting_deps_def
      basic_deps_def install_additional_packages_def additional_packages_def
      garbled_fields garbled_run_command say_def pytorch_command_def)

lemma garbled_attempts_files:
  "files w ''models'' = None \<Longrightarrow> files w ''download_midas.py'' = None \<Longrightarrow>
   attempt garbled_env ''Setting up MiDaS models'' (call setup_midas_models) w =
     \<lparr>files = (files w)(''models'' \<mapsto> Dir, ''download_midas.py'' \<mapsto> File Midas_Script),
      console = console w @ [Step_Header ''Setting up MiDaS models'',
        Fixed '':inbox_tray: Setting up MiDaS models...'', Cmd_Start ''Downloading MiDaS models'',
        Step_Failed ''Setting up MiDaS models'' (UnicodeDecodeError ''invalid start byte'')],
      history = history w @ [''python download_midas.py'']\<rparr>"
  "files w ''test_installation.py'' = None \<Longrightarrow>
   attempt garbled_env ''Verifying installation'' (call verify_installation) w =
     \<lparr>files = (files w)(''test_installation.py'' \<mapsto> File Test_Script),
      console = console w @ [Step_Header ''Verifying installation'',
        Fixed '':mag: Verifying installation...'', Cmd_Start ''Running installation tests'',
        Step_Failed ''Verifying installation'' (UnicodeDecodeError ''invalid start byte'')],
      history = history w @ [''python test_installation.py'']\<rparr>"
  by (simp_all add: attempt_def call_def setup_midas_models_def verify_installation_def Let_def
      mkdir_exist_ok_def open_write_def garbled_run_command say_def)

lemma garbled_run:
  "fst (main garbled_env clean_world) = Inr ()
   \<and> history (snd (main garbled_env clean_world)) =
       [''pip install torch torchvision torchaudio'',
        ''pip install opencv-python opencv-contrib-python'', ''pip install timm'',
        ''pip install plyfile'', ''pip install ffmpeg-python'',
        ''python download_midas.py'', ''python test_installation.py'']
   \<and> filter (\<lambda>l. \<exists>d x. l = Step_Failed d x) (console (snd (main garbled_env clean_world))) =
       [Step_Failed ''Installing PyTorch'' (UnicodeDecodeError ''invalid start byte''),
        Step_Failed ''Installing OpenCV'' (UnicodeDecodeError ''invalid start byte''),
        Step_Failed ''Installing MiDaS dependencies'' (UnicodeDecodeError ''invalid start byte''),
        Step_Failed ''Installing Gaussian Splatting dependencies''
          (UnicodeDecodeError ''invalid start byte''),
        Step_Failed ''Installing additional packages'' (UnicodeDecodeError ''invalid start byte''),
        Step_Failed ''Setting up MiDaS models'' (UnicodeDecodeError ''invalid start byte''),
        Step_Failed ''Verifying installation'' (UnicodeDecodeError ''invalid start byte'')]"
proof -
  let ?v = "say (Version_Ok 3 10 4)
      (say (Fixed (replicate 50 (CHR ''=''))) (say (Fixed '':fire: INSANE FUSION - Real AI Setup'') clean_world))"
  have ok: "\<not> ((3::nat) < 3 \<or> ((3::nat) = 3 \<and> (10::nat) < 8))" by simp
  have c: "create_conda_env garbled_env ?v =
      (Inr (), say (Fixed '':snake: Do you want to create a conda environment? (y/n): '') ?v)"
    using garbled_fields(3) normalise_n by (rule create_conda_env_declines)
  have ret: "fst (main garbled_env clean_world) = Inr ()"
    by (simp add: main_supported(1) [OF garbled_fields(1) ok refl] c)
  from main_supported(2) [OF garbled_fields(1) ok refl ret]
  have "snd (main garbled_env clean_world) =
      (foldl (\<lambda>u (d, f). attempt garbled_env d f u)
         (say (Fixed '':snake: Do you want to create a conda environment? (y/n): '') ?v) steps)
      \<lparr>console := console (foldl (\<lambda>u (d, f). attempt garbled_env d f u)
         (say (Fixed '':snake: Do you want to create a conda environment? (y/n): '') ?v) steps)
                        @ closing_lines\<rparr>"
    by (simp add: c)
  then have "history (snd (main garbled_env clean_world)) =
       [''pip install torch torchvision torchaudio'',
        ''pip install opencv-python opencv-contrib-python'', ''pip install timm'',
        ''pip install plyfile'', ''pip install ffmpeg-python'',
        ''python download_midas.py'', ''python test_installation.py'']
   \<and> filter (\<lambda>l. \<exists>d x. l = Step_Failed d x) (console (snd (main garbled_env clean_world))) =
       [Step_Failed ''Installing PyTorch'' (UnicodeDecodeError ''invalid start byte''),
        Step_Failed ''Installing OpenCV'' (UnicodeDecodeError ''invalid start byte''),
        Step_Failed ''Installing MiDaS dependencies'' (UnicodeDecodeError ''invalid start byte''),
        Step_Failed ''Installing Gaussian Splatting dependencies''
          (UnicodeDecodeError ''invalid start byte''),
        Step_Failed ''Installing additional packages'' (UnicodeDecodeError ''invalid start byte''),
        Step_Failed ''Setting up MiDaS models'' (UnicodeDecodeError ''invalid start byte''),
        Step_Failed ''Verifying installation'' (UnicodeDecodeError ''invalid start byte'')]"
    by (simp add: steps_def garbled_attempts garbled_attempts_files say_def clean_world_def
        closing_lines_def banner_def)
  with ret show ?thesis by simp
qed



lemma main_returned:
  assumes "version_info e = (major, minor, micro)" and "\<not> (major < 3 \<or> (major = 3 \<and> minor < 8))"
    and "fst (main e w) = Inr ()"
  shows "marks (snd (main e w)) =
        marks w @ [Version_Ok major minor micro,
                   Fixed '':snake: Do you want to create a conda environment? (y/n): '']
        @ step_landmarks @ [banner]"
    and "firsts (snd (main e w)) = firsts w @ step_commands"
  using main_supported(2) [OF assms(1,2) refl assms(3)] by blast+

lemma run_script_status:
  "fst (run_script e w) = (if fst (main e w) = Inr () then 0 else 1)
     \<or> (\<exists>n. fst (main e w) = Inl (SystemExit n) \<and> fst (run_script e w) = n)"
  by (cases "main e w"; cases "fst (main e w)")
     (auto simp add: run_script_def split: exn.splits)

lemma run_script_snd: "snd (run_script e w) = snd (main e w)"
  by (cases "main e w"; cases "fst (main e w)")
     (auto simp add: run_script_def split: exn.splits)

lemma run_script_fst:
  "fst (run_script e w) =
     (case fst (main e w) of Inr u \<Rightarrow> 0 | Inl (SystemExit n) \<Rightarrow> n | Inl x \<Rightarrow> 1)"
  by (cases "main e w"; cases "fst (main e w)")
     (auto simp add: run_script_def split: exn.splits)

lemma run_script_too_old:
  assumes "version_info e = (major, minor, micro)" and "major < 3 \<or> (major = 3 \<and> minor < 8)"
  shows "run_script e w =
     (1, w\<lparr>console := console w @ [Fixed '':fire: INSANE FUSION - Real AI Setup'',
           Fixed (replicate 50 (CHR ''='')), Version_Error (sys_version e)]\<rparr>)"
  by (simp add: run_script_def main_too_old [OF assms])

lemma run_script_supported:
  assumes "version_info e = (major, minor, micro)" and "\<not> (major < 3 \<or> (major = 3 \<and> minor < 8))"
    and "v = say (Version_Ok major minor micro)
      (say (Fixed (replicate 50 (CHR ''=''))) (say (Fixed '':fire: INSANE FUSION - Real AI Setup'') w))"
  shows "fst (run_script e w) = (if fst (create_conda_env e v) = Inr () then 0 else 1)"
proof (cases "fst (create_conda_env e v)")
  case (Inr u)
  with main_supported(1) [OF assms] show ?thesis by (simp add: run_script_fst)
next
  case (Inl x)
  with main_supported(1) [OF assms] have m: "fst (main e w) = Inl x" by simp
  from main_supported(3) [OF assms m] have "is_Exception x" by simp
  with m Inl show ?thesis by (cases x) (simp_all add: run_script_fst)
qed

text \<open>
  C4. For every version triple below 3.8 the check returns \<open>False\<close> and the process stops
  there with exit status 1: the error line is the last thing printed and no command is
  run. For every version triple from 3.8 on the check returns \<open>True\<close> after reporting the
  version, and the process goes on: the next thing on the console is the prompt of
  \<open>create_conda_env\<close>, and where the prompt is answered (and, for the answer \<open>y\<close>, the output
  of the conda commands is text) the run goes through the seven steps to the banner and
  ends with status 0.
\<close>

theorem preflight_version_check:
  assumes "version_info e = (major, minor, micro)"
  shows "(major < 3 \<or> (major = 3 \<and> minor < 8) \<longrightarrow>
            check_python_version e w = (False, say (Version_Error (sys_version e)) w)
            \<and> run_script e w =
                (1, w\<lparr>console := console w @ [Fixed '':fire: INSANE FUSION - Real AI Setup'',
                       Fixed (replicate 50 (CHR ''='')), Version_Error (sys_version e)]\<rparr>))
    \<and> (\<not> (major < 3 \<or> (major = 3 \<and> minor < 8)) \<longrightarrow>
            check_python_version e w = (True, say (Version_Ok major minor micro) w)
            \<and> (\<exists>rest. marks (snd (run_script e w)) =
                  marks w @ Version_Ok major minor micro
                    # Fixed '':snake: Do you want to create a conda environment? (y/n): '' # rest)
            \<and> (\<forall>a. stdin_line e = Some a \<and> (strip (lower a) \<noteq> ''y'' \<or> quiet e) \<longrightarrow>
                  fst (run_script e w) = 0
                  \<and> marks (snd (run_script e w)) =
                      marks w @ [Version_Ok major minor micro,
                                 Fixed '':snake: Do you want to create a conda environment? (y/n): '']
                      @ step_landmarks @ [banner]))"
proof (cases "major < 3 \<or> (major = 3 \<and> minor < 8)")
  case True
  then show ?thesis
    using run_script_too_old [OF assms True, of w] check_python_version_eq [OF assms, of w]
    by simp
next
  case False
  let ?v = "say (Version_Ok major minor micro)
      (say (Fixed (replicate 50 (CHR ''=''))) (say (Fixed '':fire: INSANE FUSION - Real AI Setup'') w))"
  have goes_on: "\<exists>rest. marks (snd (run_script e w)) =
                  marks w @ Version_Ok major minor micro
                    # Fixed '':snake: Do you want to create a conda environment? (y/n): '' # rest"
  proof (cases "fst (main e w)")
    case (Inl x)
    from main_supported(3) [OF assms False refl Inl] show ?thesis
      by (simp add: run_script_snd)
  next
    case (Inr u)
    then have "fst (main e w) = Inr ()" by simp
    from main_returned(1) [OF assms False this] show ?thesis
      by (simp add: run_script_snd)
  qed
  have answered: "fst (run_script e w) = 0
                  \<and> marks (snd (run_script e w)) =
                      marks w @ [Version_Ok major minor micro,
                                 Fixed '':snake: Do you want to create a conda environment? (y/n): '']
                      @ step_landmarks @ [banner]"
    if "stdin_line e = Some a \<and> (strip (lower a) \<noteq> ''y'' \<or> quiet e)" for a
  proof -
    from that have "fst (create_conda_env e ?v) = Inr ()"
      by (intro create_conda_env_returns [of e a]) simp_all
    then have ret: "fst (main e w) = Inr ()"
      by (simp add: main_supported(1) [OF assms False refl])
    from main_returned(1) [OF assms False ret] ret show ?thesis
      by (simp add: run_script_snd run_script_fst)
  qed
  have chk: "check_python_version e w = (True, say (Version_Ok major minor micro) w)"
    unfolding check_python_version_eq [OF assms] using False by (rule if_not_P)
  from False goes_on answered chk show ?thesis
    by blast
qed

theorem preflight_version_check_witness:
  "fst (run_script (offline_env\<lparr>version_info := (3, 7, 9)\<rparr>) clean_world) = 1
   \<and> history (snd (run_script (offline_env\<lparr>version_info := (3, 7, 9)\<rparr>) clean_world)) = []
   \<and> fst (run_script (offline_env\<lparr>version_info := (2, 9, 0)\<rparr>) clean_world) = 1
   \<and> fst (run_script (offline_env\<lparr>version_info := (3, 8, 0)\<rparr>) clean_world) = 0
   \<and> fst (run_script (offline_env\<lparr>version_info := (4, 0, 0)\<rparr>) clean_world) = 0"
proof -
  have s: "stdin_line (offline_env\<lparr>version_info := t\<rparr>) = Some ''n''" for t
    by (simp add: offline_env_def)
  show ?thesis
    using preflight_version_check [of "offline_env\<lparr>version_info := (3, 7, 9)\<rparr>" 3 7 9 clean_world]
      preflight_version_check [of "offline_env\<lparr>version_info := (2, 9, 0)\<rparr>" 2 9 0 clean_world]
      preflight_version_check [of "offline_env\<lparr>version_info := (3, 8, 0)\<rparr>" 3 8 0 clean_world]
      preflight_version_check [of "offline_env\<lparr>version_info := (4, 0, 0)\<rparr>" 4 0 0 clean_world]
    by (simp add: clean_world_def s normalise_n)
qed

text \<open>
  C7, as amended. The exit status is 1 when the preflight check fails. When it passes, the
  status is decided by \<open>create_conda_env\<close> alone, which \<open>main\<close> calls outside the handler
  of the steps: 0 when it returns, 1 when it raises, and nothing that fails or raises
  inside the seven steps changes that. It raises at end of input on the prompt; it
  returns when the prompt is answered and, for the answer \<open>y\<close>, the output of the conda
  commands is text. With status 0 the run has gone through the steps to the banner. Here
  \<open>v\<close> is the world in which \<open>create_conda_env\<close> is called.
\<close>

theorem exit_status:
  assumes "version_info e = (major, minor, micro)"
    and "v = say (Version_Ok major minor micro)
      (say (Fixed (replicate 50 (CHR ''=''))) (say (Fixed '':fire: INSANE FUSION - Real AI Setup'') w))"
  shows "(major < 3 \<or> (major = 3 \<and> minor < 8) \<longrightarrow> fst (run_script e w) = 1)
    \<and> (\<not> (major < 3 \<or> (major = 3 \<and> minor < 8)) \<longrightarrow>
          fst (run_script e w) = (if fst (create_conda_env e v) = Inr () then 0 else 1))
    \<and> (fst (run_script e w) = 0 \<longrightarrow>
          banner \<in> set (console (snd (run_script e w)))
          \<and> firsts (snd (run_script e w)) = firsts w @ step_commands)
    \<and> (stdin_line e = None \<longrightarrow> fst (create_conda_env e v) = Inl EOFError)
    \<and> (\<forall>a. stdin_line e = Some a \<and> (strip (lower a) \<noteq> ''y'' \<or> quiet e) \<longrightarrow>
          fst (create_conda_env e v) = Inr ())"
proof -
  have old: "fst (run_script e w) = 1" if "major < 3 \<or> (major = 3 \<and> minor < 8)"
    by (simp add: run_script_too_old [OF assms(1) that])
  have new: "fst (run_script e w) = (if fst (create_conda_env e v) = Inr () then 0 else 1)"
    if "\<not> (major < 3 \<or> (major = 3 \<and> minor < 8))"
    by (rule run_script_supported [OF assms(1) that assms(2)])
  have completed: "banner \<in> set (console (snd (run_script e w)))
      \<and> firsts (snd (run_script e w)) = firsts w @ step_commands"
    if zero: "fst (run_script e w) = 0"
  proof (cases "major < 3 \<or> (major = 3 \<and> minor < 8)")
    case True
    with old zero show ?thesis by simp
  next
    case False
    with new zero have "fst (create_conda_env e v) = Inr ()" by (simp split: if_splits)
    then have ret: "fst (main e w) = Inr ()"
      by (simp add: main_supported(1) [OF assms(1) False assms(2)])
    have "banner \<in> set (marks (snd (main e w)))"
      by (simp add: main_returned(1) [OF assms(1) False ret])
    then have "banner \<in> set (console (snd (main e w)))" by simp
    with main_returned(2) [OF assms(1) False ret] show ?thesis
      by (simp add: run_script_snd)
  qed
  have eof: "fst (create_conda_env e v) = Inl EOFError" if "stdin_line e = None"
    using that by (simp add: create_conda_env_eof)
  have answered: "fst (create_conda_env e v) = Inr ()"
    if "stdin_line e = Some a \<and> (strip (lower a) \<noteq> ''y'' \<or> quiet e)" for a
    using that by (intro create_conda_env_returns [of e a]) simp_all
  from old new completed eof answered show ?thesis by blast
qed

lemma closed_stdin_fields:
  "version_info closed_stdin_env = (3, 10, 4)" "stdin_line closed_stdin_env = None"
  by (simp_all add: closed_stdin_env_def offline_env_def)

theorem exit_status_witness:
  "fst (run_script garbled_env clean_world) = 0
   \<and> filter (\<lambda>l. \<exists>d x. l = Step_Failed d x) (console (snd (main garbled_env clean_world))) =
       [Step_Failed ''Installing PyTorch'' (UnicodeDecodeError ''invalid start byte''),
        Step_Failed ''Installing OpenCV'' (UnicodeDecodeError ''invalid start byte''),
        Step_Failed ''Installing MiDaS dependencies'' (UnicodeDecodeError ''invalid start byte''),
        Step_Failed ''Installing Gaussian Splatting dependencies''
          (UnicodeDecodeError ''invalid start byte''),
        Step_Failed ''Installing additional packages'' (UnicodeDecodeError ''invalid start byte''),
        Step_Failed ''Setting up MiDaS models'' (UnicodeDecodeError ''invalid start byte''),
        Step_Failed ''Verifying installation'' (UnicodeDecodeError ''invalid start byte'')]
   \<and> fst (run_script (offline_env\<lparr>version_info := (3, 7, 9)\<rparr>) clean_world) = 1"
proof -
  have "fst (run_script garbled_env clean_world) = 0"
    using exit_status [OF garbled_fields(1) refl, of clean_world] garbled_fields(3) normalise_n
    by simp
  moreover have "fst (run_script (offline_env\<lparr>version_info := (3, 7, 9)\<rparr>) clean_world) = 1"
    using exit_status [of "offline_env\<lparr>version_info := (3, 7, 9)\<rparr>" 3 7 9 _ clean_world]
    by simp
  ultimately show ?thesis using garbled_run by simp
qed

text \<open>
  C7 as stated fails: with a supported interpreter and standard input at its end, the prompt
  raises \<^verbatim>\<open>EOFError\<close> outside any handler and the process ends with status 1.
\<close>

theorem exit_status_closed_stdin:
  "fst (check_python_version closed_stdin_env clean_world) = True
   \<and> fst (main closed_stdin_env clean_world) = Inl EOFError
   \<and> fst (run_script closed_stdin_env clean_world) = 1"
proof -
  have ok: "\<not> ((3::nat) < 3 \<or> ((3::nat) = 3 \<and> (10::nat) < 8))" by simp
  have "fst (main closed_stdin_env clean_world) = Inl EOFError"
    by (simp add: main_supported(1) [OF closed_stdin_fields(1) ok refl]
        create_conda_env_eof [OF closed_stdin_fields(2)])
  then show ?thesis
    by (simp add: run_script_fst check_python_version_eq [OF closed_stdin_fields(1)])
qed

end
